theory Spec2Isabelle
  imports Complex_Main "HOL-Library.Word" "HOL-Library.Log_Nat"
begin

unbundle bit_operations_syntax

section \<open>Numbers of the source language\<close>

text \<open>
  The source is TypeScript: every \<open>number\<close> is an IEEE-754 binary64 value. The seed and
  the generator's accumulator \<open>a\<close> hold integers, modelled as \<open>int\<close>. The only place
  where such an integer can leave the range in which binary64 is exact is the update
  \<open>a += 0x6d2b79f5\<close>, which the source does not reduce to 32 bits; its result is the
  exact sum rounded to the nearest binary64 value, ties to even. \<open>fl64\<close> is that rounding
  on integers: a value whose magnitude needs at most 53 bits is kept, a longer one is
  rounded to 53 significant bits. (The sum of a finite binary64 integer and the 31-bit
  constant never rounds to infinity, so no infinite value arises.)
\<close>

definition fl64 :: "int \<Rightarrow> int" where
  "fl64 x =
     (let m = \<bar>x\<bar>; e = bitlen m - 53
      in if e \<le> 0 then x
         else let u = 2 ^ nat e; q = m div u; r = m mod u;
                  q' = (if u < 2 * r \<or> (2 * r = u \<and> odd q) then q + 1 else q)
              in sgn x * (q' * u))"

section \<open>The generator \<open>mulberry32\<close>\<close>

text \<open>
  \<open>mulberry32(a)\<close> returns a closure over the mutable variable \<open>a\<close>. The closure's
  state is that variable, passed explicitly: \<open>mulberry32\<close> yields the initial state and
  \<open>rand\<close> is one call of the closure, returning the drawn number and the new state.

  In the body, \<open>^\<close>, \<open>|\<close>, \<open>>>>\<close> and \<open>Math.imul\<close> convert their operands to 32-bit
  integers (the value modulo \<open>2^32\<close>), so \<open>t\<close> is a \<open>32 word\<close>; the sum
  \<open>t + Math.imul(...)\<close> of two 32-bit values is exact in binary64 and is reduced modulo
  \<open>2^32\<close> by the following \<open>^=\<close>, which is the word addition. The result
  \<open>(... >>> 0) / 4294967296\<close> is an unsigned 32-bit value divided by \<open>2^32\<close>, exact in
  binary64, and so are the few operations the callers apply to it (a comparison with
  \<open>0.5\<close>, \<open>(r - 0.5) * 8\<close>, and \<open>r * (i + 1)\<close> with \<open>i + 1 \<le> 4\<close>): real arithmetic
  gives the same values.
\<close>

type_synonym prng = int

definition mulberry32 :: "int \<Rightarrow> prng" where
  "mulberry32 a = a"

definition rand :: "prng \<Rightarrow> real \<times> prng" where
  "rand a =
     (let a' = fl64 (a + 0x6d2b79f5);
          t = (word_of_int a' :: 32 word);
          t = (t XOR drop_bit 15 t) * (t OR 1);
          t = t XOR (t + (t XOR drop_bit 7 t) * (t OR 61))
      in (of_nat (unat (t XOR drop_bit 14 t)) / 4294967296, a'))"

section \<open>The quiz instance\<close>

record Alternative =
  alt_id :: string
  alt_value :: int
  alt_label :: string
  alt_correct :: bool

record QuizInstance =
  cards :: "int list"
  bits :: "int list"
  decimal :: int
  alternatives :: "Alternative list"
  seed :: int

text \<open>\<open>cards.map(() => (rand() > 0.5 ? 1 : 0))\<close>: one draw per card, left to right.\<close>

fun draw_bits :: "int list \<Rightarrow> prng \<Rightarrow> int list \<times> prng" where
  "draw_bits [] a = ([], a)"
| "draw_bits (c # cs) a =
     (let (r, a1) = rand a;
          b = (if r > 1 / 2 then 1 else 0);
          (bs, a2) = draw_bits cs a1
      in (b # bs, a2))"

text \<open>\<open>bits.reduce((acc, b, i) => acc + b * cards[i], 0)\<close>.\<close>

definition weighted_sum :: "int list \<Rightarrow> int list \<Rightarrow> int" where
  "weighted_sum cs bs =
     foldl (\<lambda>acc (b, i). acc + b * cs ! i) 0 (zip bs [0..<length bs])"

text \<open>
  A JavaScript \<open>Set\<close> keeps its elements in insertion order, and \<open>Array.from\<close> lists
  them in that order: the set of wrong values is a list without repetitions.
\<close>

definition set_add :: "int list \<Rightarrow> int \<Rightarrow> int list" where
  "set_add s v = (if v \<in> set s then s else s @ [v])"

text \<open>
  The retry loop \<open>while (wrongValues.size < 3) { ... }\<close>. It has no bound in the source,
  so it is a partial function: \<open>None\<close> is a loop that never ends.
\<close>

partial_function (option) wrong_loop :: "int \<Rightarrow> int list \<Rightarrow> prng \<Rightarrow> (int list \<times> prng) option"
  where
  "wrong_loop dec wrongValues a =
     (if length wrongValues < 3
      then (let (r, a') = rand a;
                delta = \<lfloor>(r - 1 / 2) * 8\<rfloor>;
                wrongValue = max 0 (min 15 (dec + delta))
            in wrong_loop dec
                 (if wrongValue \<noteq> dec then set_add wrongValues wrongValue else wrongValues) a')
      else Some (wrongValues, a))"

text \<open>
  The Fisher-Yates loop \<open>for (let i = length - 1; i > 0; i--)\<close>, started at \<open>i\<close>. The
  destructuring swap reads both elements before it writes them.
\<close>

fun shuffle_from :: "nat \<Rightarrow> int list \<Rightarrow> prng \<Rightarrow> int list \<times> prng" where
  "shuffle_from 0 xs a = (xs, a)"
| "shuffle_from (Suc k) xs a =
     (let i = Suc k;
          (r, a') = rand a;
          j = nat \<lfloor>r * of_nat (i + 1)\<rfloor>
      in shuffle_from k (xs[i := xs ! j, j := xs ! i]) a')"

text \<open>
  The template string \<open>`opt${i}`\<close>: the decimal digits of the index. In
  \<open>letters.map((letter, i) => ...)\<close> the index \<open>i\<close> runs over the four letters, and
  \<open>shuffledValues[i]\<close> is in range, since the list holds the decimal and the three wrong
  values whenever the retry loop has returned (lemma \<open>build_shape\<close>).
\<close>

fun digits :: "nat \<Rightarrow> string" where
  "digits n =
     (if n < 10 then [''0123456789'' ! n]
      else digits (n div 10) @ [''0123456789'' ! (n mod 10)])"

declare digits.simps [simp del]

definition make_alternatives :: "string list \<Rightarrow> int list \<Rightarrow> int \<Rightarrow> Alternative list" where
  "make_alternatives letters shuffledValues dec =
     map (\<lambda>(letter, i).
            \<lparr>alt_id = ''opt'' @ digits i,
             alt_value = shuffledValues ! i,
             alt_label = letter,
             alt_correct = (shuffledValues ! i = dec)\<rparr>)
         (zip letters [0..<length letters])"

definition buildInstanceFromSeed :: "int \<Rightarrow> QuizInstance option" where
  "buildInstanceFromSeed sd =
     (let rand0 = mulberry32 sd;
          cs = [8, 4, 2, 1];
          (bs, a1) = draw_bits cs rand0;
          dec = weighted_sum cs bs
      in case wrong_loop dec [] a1 of
           None \<Rightarrow> None
         | Some (wrongValues, a2) \<Rightarrow>
             (let letters = [''A'', ''B'', ''C'', ''D''];
                  vals = dec # wrongValues;
                  (shuffledValues, a3) = shuffle_from (length vals - 1) vals a2
              in Some \<lparr>cards = cs, bits = bs, decimal = dec,
                       alternatives = make_alternatives letters shuffledValues dec,
                       seed = sd\<rparr>))"

section \<open>Calls in a store\<close>

text \<open>
  To speak of two calls, one after the other, the variable \<open>a\<close> that a closure of
  \<open>mulberry32\<close> captures is a cell of a store: the store lists the captured variables of
  all closures created so far, and a closure is the index of its cell.
  \<open>mulberry32(a)\<close> adds a cell holding \<open>a\<close>; a call of the closure reads its cell, runs
  the body (\<open>rand\<close> above) and writes the cell. The functions below are the statements of
  \<open>buildInstanceFromSeed\<close> again, with the closure \<open>rand\<close> called through the store, and
  the store a call leaves is the store the next call starts in.
\<close>

type_synonym store = "int list"

definition mulberry32_st :: "int \<Rightarrow> store \<Rightarrow> nat \<times> store" where
  "mulberry32_st a h = (length h, h @ [a])"

definition rand_st :: "nat \<Rightarrow> store \<Rightarrow> real \<times> store" where
  "rand_st f h = (let (r, a') = rand (h ! f) in (r, h[f := a']))"

fun draw_bits_st :: "int list \<Rightarrow> nat \<Rightarrow> store \<Rightarrow> int list \<times> store" where
  "draw_bits_st [] f h = ([], h)"
| "draw_bits_st (c # cs) f h =
     (let (r, h1) = rand_st f h;
          b = (if r > 1 / 2 then 1 else 0);
          (bs, h2) = draw_bits_st cs f h1
      in (b # bs, h2))"

partial_function (option) wrong_loop_st ::
  "int \<Rightarrow> int list \<Rightarrow> nat \<Rightarrow> store \<Rightarrow> (int list \<times> store) option"
  where
  "wrong_loop_st dec wrongValues f h =
     (if length wrongValues < 3
      then (let (r, h') = rand_st f h;
                delta = \<lfloor>(r - 1 / 2) * 8\<rfloor>;
                wrongValue = max 0 (min 15 (dec + delta))
            in wrong_loop_st dec
                 (if wrongValue \<noteq> dec then set_add wrongValues wrongValue else wrongValues) f h')
      else Some (wrongValues, h))"

fun shuffle_from_st :: "nat \<Rightarrow> int list \<Rightarrow> nat \<Rightarrow> store \<Rightarrow> int list \<times> store" where
  "shuffle_from_st 0 xs f h = (xs, h)"
| "shuffle_from_st (Suc k) xs f h =
     (let i = Suc k;
          (r, h') = rand_st f h;
          j = nat \<lfloor>r * of_nat (i + 1)\<rfloor>
      in shuffle_from_st k (xs[i := xs ! j, j := xs ! i]) f h')"

definition buildInstanceFromSeed_st :: "int \<Rightarrow> store \<Rightarrow> (QuizInstance \<times> store) option" where
  "buildInstanceFromSeed_st sd h =
     (let (rand0, h0) = mulberry32_st sd h;
          cs = [8, 4, 2, 1];
          (bs, h1) = draw_bits_st cs rand0 h0;
          dec = weighted_sum cs bs
      in case wrong_loop_st dec [] rand0 h1 of
           None \<Rightarrow> None
         | Some (wrongValues, h2) \<Rightarrow>
             (let letters = [''A'', ''B'', ''C'', ''D''];
                  vals = dec # wrongValues;
                  (shuffledValues, h3) = shuffle_from_st (length vals - 1) vals rand0 h2
              in Some (\<lparr>cards = cs, bits = bs, decimal = dec,
                        alternatives = make_alternatives letters shuffledValues dec,
                        seed = sd\<rparr>, h3)))"

section \<open>The HTTP handler\<close>

text \<open>
  The request carries its HTTP method (\<open>req.method\<close>, absent in the framework's type when
  the server got none; the field is \<open>req_method\<close> here)
  and the parsed query string. A response is a status with either a text body
  (\<open>res.status(n).end(text)\<close>) or a JSON body (\<open>res.status(n).json(value)\<close>); the JSON
  value is kept as a tree, objects with their keys in the order of the object literal.
\<close>

record NextApiRequest =
  req_method :: "string option"
  query :: "(string \<times> string) list"

datatype json =
    JNumber int
  | JString string
  | JBool bool
  | JArray "json list"
  | JObject "(string \<times> json) list"

datatype body = Text string | Json json

record NextApiResponse =
  status :: nat
  body :: body

definition json_of_alternative :: "Alternative \<Rightarrow> json" where
  "json_of_alternative alt =
     JObject [(''id'', JString (alt_id alt)),
              (''value'', JNumber (alt_value alt)),
              (''label'', JString (alt_label alt)),
              (''correct'', JBool (alt_correct alt))]"

definition json_of_instance :: "QuizInstance \<Rightarrow> json" where
  "json_of_instance inst =
     JObject [(''cards'', JArray (map JNumber (cards inst))),
              (''bits'', JArray (map JNumber (bits inst))),
              (''decimal'', JNumber (decimal inst)),
              (''alternatives'', JArray (map json_of_alternative (alternatives inst))),
              (''seed'', JNumber (seed inst))]"

text \<open>
  \<open>Math.random()\<close> returns a binary64 value that need not be an integer. Every finite
  binary64 value is \<open>m / 2^k\<close> for an integer \<open>m\<close> and a natural number \<open>k \<le> 1074\<close>; the
  pair \<open>(m, k)\<close> stands for it (\<open>(1, 1)\<close> is \<open>0.5\<close>). \<open>times64 x n\<close> is the binary64
  product of \<open>x\<close> and the integer \<open>n\<close>: the exact product \<open>m * n / 2^k\<close> rounded to the
  nearest binary64 value, ties to even. Scaling by a power of two does not change the
  rounding to 53 significant bits, so the numerator is rounded by \<open>fl64\<close>; where \<open>fl64\<close>
  rounds, the numerator has more than 53 bits, so the product is at least \<open>2^53 / 2^1074\<close>, in
  the range where binary64 has 53 significant bits. \<open>floor64\<close> is \<open>Math.floor\<close>.
\<close>

type_synonym binary64 = "int \<times> nat"

definition times64 :: "binary64 \<Rightarrow> int \<Rightarrow> binary64" where
  "times64 x n = (fl64 (fst x * n), snd x)"

definition floor64 :: "binary64 \<Rightarrow> int" where
  "floor64 x = fst x div 2 ^ snd x"

text \<open>
  \<open>handler req random\<close>: \<open>random\<close> is the value \<open>Math.random()\<close> returns in this call, a
  binary64 value of the environment with \<open>0 \<le> random < 1\<close>. The seed is
  \<open>Math.floor(random * 1_000_000_000)\<close>, with the product taken in binary64. The result
  is \<open>None\<close> when the call never responds because \<open>buildInstanceFromSeed\<close> does not return.
\<close>

definition handler :: "NextApiRequest \<Rightarrow> binary64 \<Rightarrow> NextApiResponse option" where
  "handler req random =
     (if req_method req \<noteq> Some ''GET''
      then Some \<lparr>status = 405, body = Text ''Method Not Allowed''\<rparr>
      else let sd = floor64 (times64 random 1000000000)
           in case buildInstanceFromSeed sd of
                None \<Rightarrow> None
              | Some instance \<Rightarrow>
                  Some \<lparr>status = 200,
                        body = Json (JObject
                          [(''meta'', JObject [(''titulo'', JString ''Contagem (plugged)'')]),
                           (''instance'', json_of_instance instance)])\<rparr>)"

text \<open>Reading a response: the member of an object, and the alternatives of the payload.\<close>

fun member :: "string \<Rightarrow> json \<Rightarrow> json option" where
  "member k (JObject kvs) = map_of kvs k"
| "member k _ = None"

fun elements :: "json \<Rightarrow> json list" where
  "elements (JArray js) = js"
| "elements _ = []"

definition payload_instance :: "NextApiResponse option \<Rightarrow> json option" where
  "payload_instance res =
     (case res of
        None \<Rightarrow> None
      | Some r \<Rightarrow> (case body r of Text _ \<Rightarrow> None | Json j \<Rightarrow> member ''instance'' j))"

definition payload_alternatives :: "NextApiResponse option \<Rightarrow> json list" where
  "payload_alternatives res =
     (case payload_instance res of
        None \<Rightarrow> []
      | Some inst \<Rightarrow> (case member ''alternatives'' inst of None \<Rightarrow> [] | Some alts \<Rightarrow> elements alts))"

definition payload_seed :: "NextApiResponse option \<Rightarrow> json option" where
  "payload_seed res =
     (case payload_instance res of None \<Rightarrow> None | Some inst \<Rightarrow> member ''seed'' inst)"

section \<open>The shuffle in the words of the specification\<close>

text \<open>
  The specification describes the shuffle of the four values as: for \<open>i\<close> from 3 down to 1,
  draw \<open>j = floor(stream() * (i + 1))\<close> and swap the values at \<open>i\<close> and \<open>j\<close>. This is
  that text, step by step, to be compared with \<open>shuffle_from\<close>, the loop of the source.
\<close>

definition spec_swap :: "nat \<Rightarrow> nat \<Rightarrow> int list \<Rightarrow> int list" where
  "spec_swap i j xs = xs[i := xs ! j, j := xs ! i]"

definition spec_shuffle :: "int list \<Rightarrow> prng \<Rightarrow> int list" where
  "spec_shuffle xs a =
     (let (r3, a3) = rand a;
          xs3 = spec_swap 3 (nat \<lfloor>r3 * 4\<rfloor>) xs;
          (r2, a2) = rand a3;
          xs2 = spec_swap 2 (nat \<lfloor>r2 * 3\<rfloor>) xs3;
          (r1, a1) = rand a2
      in spec_swap 1 (nat \<lfloor>r1 * 2\<rfloor>) xs2)"

section \<open>Definitions used in the proofs\<close>

text \<open>
  The scrambling steps of \<open>rand\<close> on integers, with the reduction modulo \<open>2^32\<close> written
  as \<open>take_bit 32\<close>: \<open>scramble a\<close> is the unsigned 32-bit value \<open>rand\<close> divides by \<open>2^32\<close>
  when the accumulator, after its update, is \<open>a\<close> (lemma \<open>rand_scramble\<close>).
\<close>

definition mix1 :: "int \<Rightarrow> int" where
  "mix1 t = take_bit 32 ((t XOR drop_bit 15 t) * (t OR 1))"

definition mix2 :: "int \<Rightarrow> int" where
  "mix2 t = t XOR take_bit 32 (t + take_bit 32 ((t XOR drop_bit 7 t) * (t OR 61)))"

definition mix3 :: "int \<Rightarrow> int" where
  "mix3 t = t XOR drop_bit 14 t"

definition scramble :: "int \<Rightarrow> int" where
  "scramble a = mix3 (mix2 (mix1 (take_bit 32 a)))"

text \<open>
  One turn of the retry loop on the set of wrong values, given the draw; and the candidate
  wrong value the loop computes from the draw made with the accumulator at \<open>a\<close>.
\<close>

definition next_wrong :: "int \<Rightarrow> int list \<Rightarrow> real \<Rightarrow> int list" where
  "next_wrong dec ws r =
     (let wrongValue = max 0 (min 15 (dec + \<lfloor>(r - 1 / 2) * 8\<rfloor>))
      in if wrongValue \<noteq> dec then set_add ws wrongValue else ws)"

definition cand :: "int \<Rightarrow> int \<Rightarrow> int" where
  "cand dec a = max 0 (min 15 (dec + (scramble a div 536870912 - 4)))"

text \<open>
  Tables of draws. While the accumulator stays below \<open>2^53\<close> its updates are exact, and
  the accumulator after \<open>n\<close> updates from 0 is \<open>n * 1831565813\<close>; modulo \<open>2^32\<close> these
  values run through all \<open>2^32\<close> states, since the constant is odd. For a value \<open>v\<close> of
  the top three bits of a draw, a table lists, for each \<open>j\<close> from 1 to 877, an offset
  \<open>x < 64\<close> such that the draw made in the state \<open>(j * 4900000 + x) * 1831565813\<close> has
  the top three bits \<open>v\<close>. \<open>chk v (j * 8974672483700000) xs\<close> checks a table from its
  \<open>j\<close>-th entry on (\<open>8974672483700000 = 4900000 * 1831565813\<close>). With such a table, each
  window of 4900063 successive draws holds a draw with the top bits \<open>v\<close>.
\<close>

fun chk :: "int \<Rightarrow> int \<Rightarrow> int list \<Rightarrow> bool" where
  "chk v base [] = True"
| "chk v base (x # xs) =
     (0 \<le> x \<and> x < 64 \<and> drop_bit 29 (scramble (base + x * 1831565813)) = v \<and>
      chk v (base + 8974672483700000) xs)"

definition offs1 :: "int list" where
  "offs1 =
     [3, 18, 2, 7, 4, 2, 0, 0, 15, 16, 11, 2, 5, 5, 13, 20, 0, 0, 6, 42, 5, 0, 6, 1, 3, 2, 7, 5,
      9, 1, 7, 0, 19, 8, 3, 4, 10, 22, 0, 19, 2, 16, 6, 30, 0, 5, 9, 16, 5, 7, 8, 17, 14, 5, 3, 7,
      9, 1, 2, 1, 9, 17, 42, 0, 6, 3, 3, 4, 13, 8, 1, 3, 4, 13, 1, 3, 8, 6, 5, 3, 9, 1, 8, 22, 16,
      6, 1, 5, 0, 5, 5, 14, 0, 0, 0, 0, 2, 8, 14, 9, 11, 17, 8, 0, 9, 12, 3, 1, 4, 1, 10, 0, 9, 1,
      2, 1, 9, 0, 2, 9, 1, 9, 15, 27, 19, 0, 0, 1, 0, 7, 4, 4, 1, 0, 15, 2, 33, 2, 6, 11, 5, 2, 4,
      2, 2, 22, 2, 1, 0, 38, 13, 4, 0, 21, 2, 1, 4, 8, 7, 6, 17, 2, 4, 2, 4, 12, 12, 3, 11, 0, 0,
      5, 0, 8, 4, 1, 1, 0, 7, 9, 1, 0, 20, 1, 3, 7, 0, 4, 1, 2, 4, 3, 7, 18, 4, 8, 10, 14, 6, 14,
      2, 0, 1, 2, 0, 9, 5, 6, 7, 10, 3, 0, 4, 7, 14, 15, 0, 1, 0, 1, 3, 10, 3, 10, 11, 1, 3, 6,
      12, 1, 10, 1, 8, 8, 3, 4, 5, 20, 33, 0, 1, 0, 1, 0, 6, 0, 19, 3, 0, 11, 11, 3, 15, 15, 9, 6,
      1, 5, 8, 10, 3, 8, 3, 4, 26, 53, 4, 11, 0, 0, 1, 2, 0, 1, 5, 0, 7, 3, 10, 3, 12, 5, 9, 8, 4,
      7, 16, 0, 0, 6, 4, 5, 9, 10, 15, 17, 0, 3, 5, 0, 30, 1, 4, 1, 0, 24, 2, 3, 3, 11, 0, 7, 23,
      19, 29, 3, 0, 8, 1, 18, 2, 0, 15, 12, 5, 18, 1, 0, 3, 9, 2, 6, 1, 6, 14, 2, 0, 7, 2, 6, 35,
      5, 4, 14, 2, 16, 2, 8, 0, 14, 6, 3, 7, 1, 3, 0, 13, 1, 0, 8, 1, 15, 9, 2, 5, 7, 8, 2, 5, 10,
      8, 24, 7, 2, 10, 0, 1, 7, 4, 22, 14, 11, 18, 18, 17, 2, 1, 0, 0, 0, 13, 18, 2, 0, 9, 13, 2,
      2, 2, 15, 6, 3, 5, 9, 0, 14, 4, 1, 2, 4, 3, 14, 2, 5, 52, 6, 13, 10, 16, 2, 9, 13, 5, 22,
      21, 0, 2, 12, 0, 4, 3, 12, 7, 5, 11, 1, 3, 3, 2, 3, 0, 1, 1, 16, 7, 4, 13, 3, 2, 6, 23, 7,
      15, 0, 3, 8, 11, 9, 12, 5, 1, 3, 4, 0, 5, 21, 1, 9, 2, 6, 12, 25, 1, 2, 1, 0, 13, 8, 8, 2,
      5, 1, 8, 18, 5, 0, 2, 8, 1, 1, 0, 11, 7, 12, 0, 13, 2, 0, 2, 14, 1, 4, 13, 28, 9, 6, 25, 7,
      11, 3, 14, 9, 0, 17, 3, 3, 6, 1, 11, 0, 3, 22, 2, 4, 5, 19, 4, 5, 4, 27, 4, 1, 12, 6, 41, 7,
      3, 8, 0, 16, 0, 1, 3, 0, 3, 3, 0, 8, 5, 0, 3, 1, 4, 3, 4, 4, 10, 9, 0, 9, 5, 10, 8, 9, 1, 4,
      0, 24, 1, 8, 1, 2, 14, 11, 12, 4, 3, 5, 3, 2, 9, 5, 7, 14, 2, 12, 8, 26, 1, 0, 7, 3, 19, 13,
      3, 3, 14, 18, 0, 15, 0, 6, 6, 9, 17, 2, 3, 13, 8, 16, 2, 22, 14, 8, 7, 16, 0, 21, 19, 4, 0,
      10, 15, 7, 11, 19, 6, 7, 17, 5, 8, 2, 17, 12, 10, 17, 11, 0, 7, 1, 20, 6, 9, 7, 6, 1, 6, 7,
      0, 14, 8, 4, 9, 3, 1, 0, 1, 2, 0, 9, 7, 3, 2, 9, 1, 8, 0, 1, 4, 8, 3, 0, 2, 3, 3, 6, 13, 5,
      3, 2, 3, 18, 1, 4, 2, 2, 1, 17, 24, 8, 1, 0, 3, 14, 10, 18, 1, 16, 2, 8, 0, 11, 2, 1, 16, 9,
      2, 18, 8, 3, 0, 7, 2, 4, 0, 9, 2, 0, 1, 1, 1, 4, 16, 6, 1, 0, 6, 3, 31, 10, 0, 2, 1, 2, 1,
      1, 12, 0, 5, 1, 7, 19, 12, 3, 3, 2, 12, 4, 5, 4, 7, 12, 14, 6, 6, 19, 12, 1, 14, 7, 1, 1, 1,
      0, 2, 0, 4, 2, 0, 21, 7, 0, 3, 2, 1, 2, 10, 4, 10, 2, 8, 9, 9, 5, 6, 14, 3, 16, 0, 1, 9, 3,
      2, 5, 0, 11, 10, 2, 2, 1, 0, 5, 1, 6, 11, 13, 13, 11, 21, 1, 0, 1, 4, 4, 2, 13, 4, 11, 3, 4,
      9, 9, 22, 4, 17, 5, 5, 0, 1, 9, 2, 3, 7, 5, 0, 5, 0, 5, 2, 6, 6, 0, 4, 2, 5, 9, 2, 2, 10, 4,
      9, 8, 0, 1, 1, 11, 19, 10, 2, 1, 1, 15, 26, 4, 5, 7, 4, 28, 0, 0, 2, 0, 2, 14, 20, 2, 12]"

definition offs2 :: "int list" where
  "offs2 =
     [11, 10, 5, 3, 9, 10, 2, 3, 0, 4, 9, 3, 0, 2, 0, 6, 18, 2, 2, 0, 1, 5, 3, 3, 4, 0, 3, 4, 5,
      3, 9, 7, 3, 1, 0, 11, 8, 0, 2, 8, 8, 15, 1, 2, 6, 0, 0, 5, 0, 9, 24, 7, 4, 6, 4, 15, 7, 10,
      6, 30, 11, 8, 0, 23, 1, 2, 1, 7, 16, 5, 0, 11, 3, 25, 16, 12, 20, 1, 0, 0, 3, 7, 7, 7, 1, 8,
      28, 16, 5, 11, 6, 9, 2, 16, 2, 11, 5, 13, 0, 4, 4, 1, 1, 30, 1, 11, 0, 22, 6, 13, 9, 6, 1,
      4, 17, 7, 3, 5, 1, 8, 6, 10, 5, 4, 17, 1, 12, 13, 2, 3, 8, 9, 5, 8, 4, 10, 17, 12, 2, 8, 14,
      0, 29, 1, 8, 6, 11, 7, 7, 1, 9, 0, 19, 1, 20, 4, 19, 0, 2, 9, 4, 1, 7, 1, 1, 10, 13, 1, 1,
      4, 1, 1, 9, 6, 5, 2, 0, 11, 0, 1, 18, 13, 22, 27, 4, 5, 8, 28, 13, 7, 1, 2, 1, 6, 0, 4, 4,
      3, 1, 2, 15, 2, 2, 4, 17, 3, 3, 7, 0, 17, 22, 13, 0, 3, 5, 11, 4, 22, 8, 20, 6, 2, 0, 6, 2,
      12, 11, 7, 1, 8, 7, 0, 1, 2, 10, 3, 2, 8, 14, 5, 3, 1, 2, 7, 3, 4, 2, 4, 7, 34, 15, 2, 9,
      10, 17, 24, 2, 1, 2, 0, 9, 5, 5, 1, 0, 5, 15, 1, 2, 14, 0, 8, 14, 5, 1, 4, 2, 0, 3, 0, 2, 3,
      3, 1, 1, 0, 18, 2, 16, 1, 8, 0, 0, 18, 6, 3, 5, 5, 8, 11, 16, 7, 30, 18, 2, 2, 0, 1, 6, 1,
      12, 4, 26, 0, 6, 1, 7, 18, 0, 14, 8, 2, 9, 16, 0, 0, 24, 2, 5, 1, 21, 0, 5, 11, 4, 10, 11,
      8, 3, 2, 3, 2, 8, 1, 0, 0, 1, 0, 2, 5, 0, 6, 14, 7, 0, 8, 1, 2, 7, 46, 0, 4, 4, 10, 3, 9, 3,
      4, 1, 4, 10, 3, 9, 4, 1, 1, 6, 11, 3, 15, 6, 1, 2, 9, 1, 9, 5, 6, 5, 5, 4, 2, 19, 13, 8, 3,
      21, 0, 4, 5, 1, 0, 22, 1, 5, 10, 2, 34, 1, 0, 0, 13, 1, 7, 0, 4, 0, 0, 29, 0, 7, 5, 0, 1,
      14, 4, 1, 1, 1, 16, 9, 0, 18, 0, 6, 5, 14, 4, 13, 0, 17, 12, 6, 6, 40, 7, 0, 4, 0, 4, 3, 4,
      2, 5, 11, 0, 4, 2, 9, 33, 44, 1, 8, 2, 7, 2, 16, 14, 16, 5, 27, 13, 0, 17, 10, 4, 4, 10, 0,
      6, 0, 12, 6, 3, 4, 7, 1, 1, 8, 3, 7, 5, 2, 2, 17, 0, 6, 11, 3, 11, 0, 3, 3, 3, 1, 2, 5, 13,
      0, 4, 12, 18, 10, 10, 14, 4, 3, 3, 20, 24, 14, 4, 14, 16, 10, 1, 5, 6, 2, 2, 14, 2, 24, 0,
      2, 4, 16, 3, 11, 6, 3, 2, 8, 7, 0, 12, 8, 1, 11, 9, 2, 3, 3, 1, 5, 2, 9, 1, 6, 15, 0, 19, 2,
      4, 8, 16, 2, 2, 15, 4, 7, 9, 0, 2, 20, 0, 5, 7, 16, 9, 24, 10, 11, 11, 1, 0, 11, 4, 3, 2, 4,
      1, 0, 1, 21, 0, 20, 1, 4, 0, 10, 1, 5, 14, 9, 13, 1, 11, 9, 0, 1, 6, 0, 0, 12, 0, 14, 3, 13,
      9, 1, 23, 5, 3, 1, 10, 5, 20, 14, 4, 34, 12, 11, 1, 0, 4, 21, 9, 23, 0, 5, 13, 8, 5, 2, 5,
      3, 34, 9, 0, 7, 2, 1, 6, 4, 6, 7, 1, 23, 0, 2, 0, 10, 12, 5, 9, 2, 3, 16, 7, 10, 14, 6, 0,
      4, 11, 9, 1, 8, 26, 2, 0, 3, 7, 7, 4, 9, 1, 9, 1, 4, 16, 1, 6, 2, 1, 7, 4, 9, 2, 3, 0, 1, 0,
      0, 3, 0, 1, 10, 8, 2, 12, 3, 12, 5, 6, 9, 23, 12, 11, 18, 2, 0, 2, 5, 4, 1, 14, 6, 7, 7, 0,
      3, 9, 2, 3, 1, 1, 13, 2, 2, 3, 4, 2, 9, 1, 4, 5, 3, 9, 10, 13, 10, 7, 1, 5, 0, 0, 23, 2, 4,
      10, 3, 6, 8, 8, 12, 5, 1, 5, 3, 5, 5, 27, 6, 7, 4, 0, 16, 25, 0, 7, 22, 11, 4, 17, 9, 4, 1,
      7, 14, 14, 13, 4, 1, 18, 11, 4, 11, 0, 4, 9, 4, 9, 1, 14, 0, 4, 10, 8, 3, 11, 2, 0, 7, 0, 0,
      4, 7, 2, 19, 11, 3, 1, 3, 2, 2, 15, 16, 0, 1, 6, 3, 2, 3, 1, 12, 11, 24, 4, 5, 7, 22, 35,
      10, 3, 3, 6, 6, 2, 14, 9, 12, 2, 10, 0, 23, 5, 3, 10, 2, 2, 4, 0, 7, 3, 15, 9, 12, 1, 6, 1,
      3, 5, 2, 12, 2]"

definition offs3 :: "int list" where
  "offs3 =
     [7, 3, 3, 6, 6, 0, 17, 25, 4, 7, 1, 0, 2, 3, 12, 1, 26, 5, 4, 2, 8, 3, 14, 2, 8, 11, 8, 13,
      3, 0, 2, 5, 7, 2, 2, 0, 4, 5, 7, 2, 0, 5, 9, 4, 1, 7, 4, 1, 2, 4, 0, 13, 8, 15, 0, 6, 10,
      16, 16, 15, 1, 5, 2, 5, 14, 20, 2, 1, 0, 15, 7, 2, 7, 4, 3, 0, 0, 12, 10, 8, 0, 0, 1, 0, 0,
      0, 24, 17, 1, 13, 1, 5, 6, 5, 13, 13, 13, 28, 3, 21, 2, 5, 6, 1, 7, 0, 4, 2, 1, 12, 6, 11,
      7, 3, 1, 0, 4, 3, 0, 3, 4, 1, 4, 1, 1, 11, 5, 6, 6, 5, 1, 13, 4, 31, 19, 4, 3, 20, 11, 29,
      1, 3, 8, 3, 4, 5, 0, 8, 2, 8, 0, 9, 14, 4, 21, 20, 1, 5, 0, 0, 5, 18, 0, 0, 5, 0, 2, 2, 0,
      1, 9, 0, 21, 0, 17, 6, 16, 1, 4, 5, 4, 9, 4, 9, 13, 2, 13, 0, 8, 0, 10, 6, 2, 7, 2, 2, 5, 0,
      0, 3, 0, 5, 6, 18, 7, 0, 0, 1, 5, 36, 0, 2, 18, 6, 3, 0, 5, 23, 2, 2, 0, 1, 10, 2, 9, 2, 5,
      2, 3, 7, 4, 23, 0, 23, 41, 2, 6, 14, 4, 7, 2, 13, 4, 2, 8, 2, 8, 12, 4, 5, 13, 29, 1, 1, 8,
      1, 17, 21, 6, 5, 2, 2, 1, 0, 14, 3, 28, 2, 1, 1, 2, 0, 9, 7, 8, 10, 12, 1, 2, 8, 6, 10, 0,
      2, 9, 6, 1, 4, 14, 17, 1, 3, 18, 0, 10, 9, 1, 0, 7, 4, 22, 4, 10, 7, 7, 8, 7, 4, 17, 0, 13,
      5, 1, 2, 3, 0, 8, 7, 3, 2, 19, 7, 0, 40, 14, 6, 9, 31, 2, 19, 6, 8, 0, 0, 10, 38, 23, 0, 5,
      1, 2, 9, 5, 8, 1, 5, 0, 5, 28, 2, 13, 1, 3, 32, 4, 10, 4, 15, 17, 1, 6, 3, 3, 5, 16, 18, 2,
      12, 12, 24, 1, 2, 29, 13, 4, 7, 29, 0, 1, 13, 3, 4, 0, 5, 6, 1, 6, 19, 2, 7, 5, 3, 16, 1, 7,
      8, 14, 1, 0, 8, 2, 8, 0, 5, 1, 2, 7, 14, 8, 6, 10, 5, 0, 4, 2, 5, 10, 5, 1, 1, 3, 0, 15, 2,
      8, 3, 0, 6, 3, 1, 32, 7, 3, 2, 1, 10, 0, 0, 0, 7, 2, 5, 0, 1, 14, 10, 6, 5, 12, 3, 2, 2, 8,
      35, 1, 9, 0, 6, 14, 44, 0, 11, 3, 8, 29, 1, 0, 4, 12, 0, 3, 4, 5, 1, 2, 1, 7, 1, 4, 1, 7, 3,
      5, 1, 11, 3, 5, 0, 4, 2, 6, 4, 3, 1, 1, 5, 27, 9, 5, 5, 7, 2, 6, 7, 5, 3, 10, 9, 1, 0, 5, 5,
      8, 0, 4, 8, 2, 12, 1, 1, 2, 2, 9, 1, 7, 10, 2, 0, 1, 1, 12, 11, 6, 2, 0, 6, 0, 11, 6, 0, 11,
      4, 21, 12, 6, 1, 3, 6, 16, 2, 1, 13, 0, 9, 2, 20, 7, 22, 7, 16, 6, 8, 4, 3, 9, 8, 12, 1, 6,
      5, 16, 0, 8, 1, 3, 38, 1, 4, 2, 7, 3, 15, 5, 16, 4, 8, 10, 3, 6, 7, 1, 14, 13, 2, 7, 14, 4,
      11, 5, 10, 14, 3, 2, 3, 5, 4, 2, 2, 4, 9, 15, 1, 5, 10, 0, 3, 2, 24, 0, 5, 2, 8, 2, 9, 3,
      17, 15, 2, 1, 0, 0, 1, 5, 8, 8, 3, 0, 3, 4, 13, 3, 1, 12, 9, 7, 6, 0, 1, 3, 7, 12, 34, 22,
      10, 0, 11, 4, 6, 3, 22, 1, 1, 15, 7, 13, 10, 5, 15, 11, 17, 1, 10, 0, 6, 0, 5, 1, 10, 0, 0,
      5, 5, 0, 19, 3, 30, 3, 0, 12, 3, 13, 7, 5, 5, 15, 5, 0, 26, 11, 17, 10, 23, 5, 7, 4, 0, 4,
      6, 13, 0, 1, 2, 7, 6, 18, 1, 0, 1, 21, 9, 16, 17, 8, 31, 4, 7, 0, 18, 16, 1, 9, 1, 6, 28,
      11, 15, 5, 3, 1, 5, 3, 16, 0, 5, 38, 11, 1, 0, 0, 22, 19, 23, 12, 1, 12, 4, 2, 7, 0, 6, 9,
      5, 6, 1, 5, 3, 2, 1, 2, 0, 6, 9, 14, 1, 8, 0, 13, 9, 18, 3, 2, 5, 2, 3, 42, 1, 12, 2, 3, 0,
      1, 10, 0, 3, 13, 6, 17, 27, 0, 2, 29, 3, 8, 7, 8, 10, 3, 5, 2, 10, 1, 2, 1, 1, 12, 5, 5, 21,
      1, 3, 4, 2, 2, 6, 2, 8, 26, 5, 0, 1, 14, 1, 2, 7, 7, 11, 4, 4, 1, 8, 0, 1, 1, 10, 8, 7, 28,
      5, 21, 5, 11, 0, 5, 12, 12, 6, 5, 6, 7, 14, 0, 5, 2, 1, 0, 1, 1, 0, 6, 8, 1, 10, 10, 3, 16,
      6, 24]"

definition offs5 :: "int list" where
  "offs5 =
     [1, 6, 0, 1, 1, 7, 13, 2, 3, 10, 15, 9, 8, 1, 8, 3, 3, 10, 19, 3, 14, 2, 8, 6, 10, 4, 2, 8,
      8, 23, 0, 4, 25, 14, 1, 2, 6, 14, 6, 0, 3, 2, 7, 3, 2, 15, 6, 2, 16, 12, 9, 2, 13, 55, 6, 8,
      0, 4, 0, 7, 7, 7, 15, 3, 22, 12, 5, 3, 3, 27, 6, 7, 2, 2, 0, 1, 2, 2, 28, 16, 8, 3, 5, 1, 4,
      15, 3, 1, 11, 14, 10, 7, 3, 2, 8, 14, 33, 7, 23, 22, 1, 9, 5, 9, 2, 32, 18, 7, 3, 4, 8, 12,
      40, 2, 13, 12, 1, 7, 3, 11, 10, 2, 8, 0, 2, 4, 3, 7, 1, 6, 10, 2, 6, 1, 2, 3, 7, 3, 0, 1, 0,
      22, 3, 7, 13, 3, 1, 12, 1, 2, 3, 2, 1, 9, 0, 25, 3, 3, 6, 2, 11, 0, 2, 14, 0, 9, 1, 6, 5, 6,
      8, 10, 10, 1, 0, 18, 4, 13, 20, 2, 14, 6, 3, 21, 0, 14, 11, 2, 2, 1, 9, 4, 4, 2, 16, 23, 19,
      4, 7, 37, 4, 1, 9, 13, 8, 4, 4, 14, 2, 0, 1, 5, 1, 8, 6, 4, 19, 0, 1, 5, 4, 17, 4, 3, 4, 22,
      0, 12, 6, 4, 1, 3, 13, 6, 5, 7, 0, 4, 0, 1, 0, 8, 3, 12, 2, 6, 4, 0, 11, 14, 1, 5, 2, 6, 1,
      10, 0, 0, 7, 1, 12, 6, 0, 6, 24, 12, 3, 24, 4, 8, 11, 18, 4, 3, 0, 3, 10, 9, 6, 4, 1, 2, 5,
      0, 15, 1, 0, 1, 4, 0, 19, 14, 7, 1, 2, 1, 4, 10, 4, 5, 0, 9, 2, 11, 24, 4, 1, 20, 1, 8, 1,
      0, 8, 3, 1, 7, 16, 6, 9, 22, 7, 1, 11, 11, 9, 10, 10, 3, 11, 4, 25, 14, 9, 3, 8, 3, 7, 1,
      26, 3, 1, 1, 3, 12, 5, 7, 7, 6, 5, 0, 7, 0, 5, 5, 17, 1, 7, 5, 20, 19, 4, 0, 7, 0, 4, 1, 4,
      1, 6, 2, 3, 21, 13, 30, 14, 2, 8, 37, 16, 4, 0, 0, 3, 3, 8, 10, 4, 8, 11, 41, 11, 4, 8, 3,
      14, 0, 0, 12, 23, 1, 14, 18, 2, 15, 10, 1, 3, 4, 22, 2, 35, 1, 8, 1, 5, 3, 7, 9, 8, 5, 45,
      10, 11, 3, 4, 1, 28, 2, 4, 0, 2, 4, 1, 13, 7, 6, 27, 6, 6, 11, 8, 6, 22, 2, 0, 2, 8, 0, 30,
      25, 0, 12, 19, 1, 20, 2, 2, 4, 0, 1, 3, 26, 11, 14, 10, 7, 5, 1, 4, 4, 1, 5, 22, 8, 0, 5, 5,
      0, 6, 0, 9, 7, 4, 2, 6, 9, 20, 12, 3, 6, 3, 0, 6, 0, 4, 7, 11, 3, 0, 7, 16, 7, 7, 0, 11, 5,
      1, 0, 9, 12, 18, 11, 4, 4, 24, 12, 27, 9, 4, 4, 13, 5, 1, 8, 3, 6, 0, 33, 12, 10, 0, 6, 10,
      18, 7, 1, 4, 19, 2, 3, 4, 6, 0, 1, 5, 6, 6, 0, 1, 1, 0, 5, 12, 4, 1, 13, 1, 7, 9, 2, 12, 0,
      0, 0, 0, 5, 10, 4, 2, 0, 5, 1, 6, 19, 8, 6, 8, 20, 4, 10, 2, 7, 0, 9, 8, 11, 0, 5, 11, 21,
      5, 2, 5, 0, 1, 2, 7, 3, 10, 8, 4, 4, 15, 2, 2, 6, 6, 1, 1, 1, 7, 0, 9, 3, 8, 21, 1, 5, 2, 0,
      3, 0, 24, 4, 4, 13, 0, 1, 2, 1, 6, 10, 8, 0, 1, 1, 5, 17, 0, 4, 1, 4, 1, 16, 8, 20, 1, 6,
      10, 5, 16, 20, 2, 0, 10, 2, 33, 19, 1, 6, 16, 2, 7, 8, 0, 5, 31, 20, 9, 3, 2, 6, 3, 5, 1, 3,
      6, 0, 17, 5, 6, 6, 5, 0, 5, 0, 11, 5, 1, 2, 25, 15, 2, 0, 5, 35, 13, 2, 3, 4, 2, 3, 13, 13,
      27, 6, 6, 0, 0, 19, 3, 9, 10, 22, 7, 0, 13, 13, 3, 5, 12, 0, 2, 14, 6, 26, 11, 15, 5, 19, 2,
      5, 10, 3, 24, 18, 0, 14, 2, 4, 1, 6, 13, 31, 8, 40, 7, 1, 1, 2, 1, 5, 0, 4, 3, 1, 8, 15, 10,
      11, 0, 2, 21, 18, 7, 1, 1, 3, 17, 1, 1, 6, 0, 7, 3, 1, 2, 26, 25, 8, 1, 27, 14, 12, 1, 0,
      15, 5, 21, 10, 3, 2, 4, 12, 2, 42, 2, 5, 7, 6, 1, 0, 5, 5, 21, 0, 11, 0, 4, 2, 7, 8, 20, 11,
      1, 1, 8, 6, 5, 1, 5, 4, 0, 5, 5, 3, 9, 10, 6, 7, 15, 9, 0, 17, 5, 12, 16, 3, 10, 0, 8, 13,
      2, 17, 1, 12, 24, 1, 14, 13, 2, 1, 3, 16, 0, 3, 6, 4, 23, 0, 3, 6, 3, 6, 13, 5, 0, 1, 8, 2,
      9, 4, 0, 1, 0, 16, 1]"

definition offs6 :: "int list" where
  "offs6 =
     [16, 1, 7, 14, 0, 1, 3, 4, 2, 0, 4, 14, 13, 16, 33, 0, 2, 24, 0, 5, 17, 44, 1, 22, 9, 8, 0,
      2, 6, 4, 10, 21, 0, 12, 13, 6, 2, 1, 8, 12, 13, 3, 5, 0, 4, 11, 2, 0, 6, 6, 12, 1, 3, 12,
      19, 5, 6, 44, 1, 10, 0, 23, 6, 1, 8, 0, 4, 9, 1, 0, 5, 0, 14, 0, 2, 8, 1, 9, 9, 1, 2, 15, 6,
      4, 6, 5, 2, 3, 7, 2, 8, 0, 1, 8, 9, 1, 9, 6, 9, 1, 20, 10, 0, 6, 12, 4, 2, 3, 14, 14, 14, 8,
      2, 11, 0, 10, 12, 12, 7, 0, 2, 5, 1, 3, 16, 2, 11, 0, 7, 1, 0, 5, 11, 9, 6, 0, 4, 11, 5, 6,
      35, 12, 1, 12, 15, 2, 4, 0, 29, 11, 1, 23, 4, 6, 1, 2, 8, 1, 28, 22, 0, 6, 14, 4, 2, 4, 3,
      5, 7, 3, 4, 32, 6, 4, 2, 0, 5, 3, 2, 0, 3, 1, 5, 5, 14, 8, 1, 23, 0, 19, 3, 5, 0, 9, 14, 0,
      0, 8, 4, 10, 18, 3, 13, 0, 3, 7, 1, 0, 1, 2, 14, 6, 2, 5, 2, 2, 1, 3, 6, 9, 2, 0, 6, 4, 0,
      18, 6, 1, 5, 10, 18, 18, 5, 7, 24, 15, 10, 6, 1, 8, 11, 9, 6, 4, 4, 11, 11, 5, 10, 3, 2, 0,
      3, 7, 6, 5, 3, 18, 0, 32, 6, 26, 27, 38, 3, 0, 5, 5, 8, 9, 12, 14, 2, 11, 41, 1, 3, 2, 31,
      6, 11, 4, 1, 11, 8, 4, 6, 11, 3, 2, 9, 2, 5, 4, 5, 5, 13, 7, 2, 2, 4, 6, 12, 9, 5, 1, 3, 6,
      8, 6, 4, 11, 5, 9, 2, 5, 1, 0, 18, 5, 3, 8, 3, 0, 11, 2, 12, 1, 0, 0, 5, 9, 22, 1, 12, 8, 4,
      27, 9, 0, 8, 0, 1, 4, 4, 8, 3, 1, 10, 6, 4, 9, 13, 3, 12, 5, 14, 0, 6, 3, 13, 5, 5, 17, 12,
      2, 12, 11, 3, 1, 0, 4, 0, 8, 9, 5, 3, 6, 0, 2, 2, 3, 23, 0, 2, 0, 3, 5, 7, 8, 2, 14, 0, 6,
      1, 7, 7, 5, 5, 0, 3, 20, 10, 2, 4, 0, 24, 6, 4, 5, 13, 3, 6, 3, 1, 8, 1, 2, 18, 16, 13, 1,
      1, 4, 1, 14, 11, 5, 13, 3, 4, 19, 4, 6, 13, 0, 8, 13, 5, 5, 3, 2, 3, 12, 6, 15, 1, 1, 1, 14,
      9, 1, 1, 13, 0, 13, 1, 10, 2, 6, 10, 0, 0, 3, 0, 4, 2, 2, 0, 3, 0, 0, 9, 12, 3, 12, 6, 2, 2,
      25, 2, 0, 0, 6, 3, 1, 14, 11, 0, 4, 1, 6, 0, 5, 5, 3, 1, 14, 1, 1, 2, 1, 4, 1, 0, 1, 11, 2,
      3, 6, 4, 10, 5, 7, 0, 7, 0, 0, 0, 29, 1, 6, 3, 27, 23, 0, 15, 15, 0, 3, 6, 16, 0, 5, 4, 8,
      5, 0, 21, 1, 9, 26, 6, 2, 7, 16, 2, 12, 10, 4, 22, 4, 1, 2, 0, 14, 20, 2, 8, 4, 16, 4, 9, 2,
      21, 1, 3, 5, 9, 1, 2, 13, 17, 3, 1, 9, 13, 6, 9, 1, 5, 2, 13, 8, 7, 2, 1, 8, 20, 6, 0, 0, 9,
      6, 13, 4, 11, 0, 56, 2, 1, 2, 12, 4, 1, 3, 14, 0, 0, 13, 9, 3, 29, 18, 1, 14, 7, 1, 9, 2,
      22, 2, 0, 8, 13, 3, 13, 0, 0, 3, 4, 4, 2, 10, 5, 5, 14, 1, 2, 9, 9, 0, 5, 3, 0, 11, 8, 12,
      4, 2, 0, 5, 5, 11, 20, 3, 3, 27, 6, 1, 0, 4, 4, 15, 11, 2, 3, 2, 36, 2, 0, 4, 8, 15, 9, 1,
      0, 9, 1, 4, 4, 12, 12, 5, 17, 14, 27, 39, 14, 7, 12, 4, 10, 2, 1, 0, 12, 6, 6, 0, 19, 8, 4,
      8, 12, 4, 5, 9, 29, 7, 18, 0, 11, 10, 3, 7, 5, 14, 2, 14, 6, 14, 20, 0, 0, 11, 7, 8, 1, 0,
      13, 6, 7, 0, 6, 9, 21, 15, 7, 12, 0, 11, 1, 16, 29, 9, 13, 6, 6, 10, 2, 0, 3, 15, 0, 2, 7,
      3, 1, 3, 5, 15, 0, 2, 1, 6, 5, 11, 28, 7, 8, 2, 1, 4, 0, 15, 6, 6, 6, 1, 6, 0, 4, 0, 0, 5,
      0, 11, 4, 4, 0, 22, 5, 10, 25, 12, 4, 0, 5, 3, 5, 1, 2, 2, 0, 9, 8, 2, 1, 20, 16, 9, 0, 10,
      11, 3, 1, 16, 8, 0, 0, 6, 1, 11, 0, 12, 23, 1, 4, 2, 0, 18, 1, 0, 1, 2, 6, 9, 5, 9, 1, 9,
      10, 8, 3, 5, 1, 8, 3, 0, 0, 2, 27, 3, 9, 5, 2, 3, 0, 3, 6, 20, 11, 3, 2, 14, 2, 3, 1, 5, 0,
      26, 6, 7, 4, 5, 7]"

definition offs7 :: "int list" where
  "offs7 =
     [15, 0, 1, 4, 3, 3, 7, 1, 7, 6, 16, 4, 3, 11, 3, 5, 14, 3, 13, 1, 0, 1, 7, 0, 0, 9, 4, 0, 1,
      6, 35, 18, 1, 0, 5, 8, 0, 2, 21, 1, 4, 4, 3, 13, 3, 1, 12, 6, 1, 0, 2, 5, 5, 2, 11, 2, 4, 2,
      7, 4, 8, 0, 4, 4, 0, 1, 0, 26, 9, 2, 20, 4, 1, 6, 4, 10, 4, 0, 18, 5, 13, 6, 0, 2, 2, 3, 7,
      0, 14, 4, 0, 4, 11, 9, 3, 2, 15, 0, 1, 8, 14, 4, 7, 13, 0, 1, 5, 8, 0, 0, 2, 5, 0, 16, 10,
      2, 0, 15, 4, 10, 3, 4, 0, 5, 5, 38, 1, 3, 10, 0, 9, 0, 0, 11, 0, 1, 1, 30, 12, 5, 8, 1, 26,
      0, 6, 11, 8, 3, 6, 12, 4, 3, 37, 0, 10, 6, 10, 11, 8, 3, 2, 5, 1, 5, 3, 1, 7, 10, 15, 2, 7,
      16, 2, 10, 6, 3, 31, 9, 3, 7, 0, 2, 0, 0, 2, 4, 26, 6, 4, 4, 7, 1, 14, 1, 3, 12, 1, 2, 14,
      5, 16, 9, 0, 3, 5, 1, 12, 10, 4, 3, 6, 19, 6, 16, 13, 24, 15, 2, 3, 4, 1, 3, 8, 0, 28, 0, 2,
      0, 2, 2, 12, 4, 4, 5, 0, 0, 3, 0, 7, 3, 14, 2, 0, 1, 13, 1, 0, 2, 9, 1, 0, 4, 13, 5, 4, 0,
      10, 6, 1, 7, 4, 0, 8, 5, 19, 1, 0, 3, 12, 2, 4, 6, 16, 24, 4, 5, 5, 34, 18, 9, 16, 17, 20,
      4, 10, 8, 22, 23, 2, 5, 0, 53, 2, 19, 1, 2, 2, 8, 0, 7, 9, 0, 11, 28, 1, 0, 4, 7, 5, 3, 10,
      2, 3, 6, 4, 2, 10, 21, 8, 3, 11, 3, 19, 1, 1, 1, 3, 7, 6, 8, 1, 16, 2, 23, 3, 0, 1, 2, 1,
      11, 0, 8, 0, 2, 22, 12, 11, 2, 4, 4, 10, 5, 1, 4, 7, 9, 2, 3, 1, 5, 9, 2, 2, 1, 0, 4, 6, 3,
      4, 6, 47, 0, 2, 1, 12, 6, 5, 4, 11, 0, 17, 7, 7, 12, 4, 6, 28, 1, 9, 6, 6, 5, 1, 23, 0, 1,
      3, 14, 12, 3, 15, 2, 7, 0, 3, 3, 1, 0, 0, 11, 2, 6, 4, 0, 8, 2, 2, 8, 5, 8, 0, 33, 10, 7, 0,
      30, 3, 13, 2, 2, 10, 15, 2, 22, 0, 33, 4, 19, 8, 2, 1, 24, 2, 3, 11, 12, 12, 2, 5, 10, 4, 0,
      0, 4, 9, 1, 5, 7, 6, 2, 2, 2, 2, 1, 3, 20, 21, 6, 7, 20, 8, 1, 2, 0, 4, 7, 1, 4, 13, 10, 1,
      24, 1, 0, 14, 12, 4, 3, 17, 14, 2, 2, 1, 4, 3, 2, 4, 7, 8, 0, 8, 48, 1, 4, 3, 7, 6, 1, 12,
      1, 3, 0, 3, 3, 1, 6, 1, 15, 5, 2, 48, 15, 17, 0, 14, 3, 7, 1, 14, 0, 5, 31, 2, 11, 6, 20, 1,
      1, 18, 24, 2, 0, 5, 3, 2, 0, 9, 13, 0, 6, 6, 2, 17, 0, 11, 3, 0, 0, 2, 1, 17, 3, 5, 11, 4,
      9, 7, 13, 35, 18, 6, 4, 1, 5, 4, 8, 2, 0, 5, 4, 1, 14, 1, 5, 9, 4, 4, 0, 0, 3, 10, 15, 16,
      4, 0, 6, 0, 6, 12, 5, 7, 0, 0, 36, 4, 5, 4, 4, 12, 2, 0, 11, 4, 13, 5, 4, 4, 4, 1, 1, 6, 5,
      7, 20, 5, 0, 1, 8, 5, 10, 20, 0, 0, 9, 4, 2, 7, 10, 1, 2, 21, 5, 3, 25, 20, 3, 2, 0, 17, 37,
      3, 1, 0, 46, 5, 28, 9, 0, 4, 3, 3, 11, 0, 1, 7, 6, 10, 10, 2, 0, 9, 2, 5, 14, 6, 2, 4, 6,
      15, 9, 19, 16, 4, 10, 12, 1, 5, 2, 2, 0, 2, 6, 14, 1, 19, 13, 3, 1, 0, 14, 47, 7, 6, 12, 6,
      14, 13, 3, 1, 1, 14, 3, 0, 0, 2, 16, 18, 3, 17, 0, 4, 3, 4, 26, 14, 2, 2, 4, 4, 4, 5, 4, 0,
      1, 5, 4, 9, 13, 4, 18, 10, 2, 39, 0, 4, 0, 6, 2, 10, 19, 5, 2, 9, 19, 9, 0, 14, 5, 6, 4, 3,
      13, 8, 7, 20, 9, 17, 6, 4, 2, 0, 31, 11, 8, 5, 8, 0, 1, 1, 5, 14, 2, 6, 4, 15, 2, 6, 3, 2,
      9, 2, 1, 1, 0, 7, 4, 1, 10, 25, 8, 8, 6, 0, 0, 5, 4, 17, 7, 0, 3, 6, 6, 12, 7, 17, 2, 3, 0,
      0, 28, 2, 0, 7, 10, 1, 0, 1, 9, 5, 5, 4, 11, 8, 3, 4, 6, 1, 21, 0, 1, 7, 14, 16, 0, 4, 4,
      14, 0, 0, 19, 28, 7, 2, 5, 3, 7, 3, 1, 5, 8, 9, 3, 1, 16, 4, 17, 23, 4, 2, 3, 32, 13, 9, 4,
      35, 0, 13]"

section \<open>Lemmas\<close>

subsection \<open>Rounding and the generator\<close>

lemma fl64_exact: "\<bar>x\<bar> < 2 ^ 53 \<Longrightarrow> fl64 x = x"
proof -
  assume "\<bar>x\<bar> < 2 ^ 53"
  then have "bitlen \<bar>x\<bar> \<le> 53"
    by (simp add: bitlen_le_iff_power)
  then show ?thesis by (simp add: fl64_def Let_def)
qed

lemma uint_drop_bit32: "uint (drop_bit n (t :: 32 word)) = drop_bit n (uint t)"
proof -
  have "take_bit 32 t = t"
    using take_bit_length_eq [of t] by simp
  then have "take_bit 32 (uint t) = uint t"
    by (simp flip: unsigned_take_bit_eq)
  then show ?thesis
    by (simp add: unsigned_drop_bit_eq)
qed

lemma uint_mix:
  fixes t :: "32 word"
  shows "uint ((t XOR drop_bit 15 t) * (t OR 1)) = mix1 (uint t)"
    and "uint (t XOR (t + (t XOR drop_bit 7 t) * (t OR 61))) = mix2 (uint t)"
    and "uint (t XOR drop_bit 14 t) = mix3 (uint t)"
  by (simp_all add: mix1_def mix2_def mix3_def uint_xor uint_or uint_word_arith_bintrs
        uint_drop_bit32)

lemma scramble_uint: "\<exists>w :: 32 word. scramble a = uint w"
proof -
  have "scramble a = mix3 (mix2 (mix1 (uint (word_of_int a :: 32 word))))"
    by (simp add: scramble_def uint_word_of_int_eq)
  then show ?thesis
    by (simp only: uint_mix [symmetric]) blast
qed

lemma scramble_range: "0 \<le> scramble a" "scramble a < 4294967296"
proof -
  obtain w :: "32 word" where w: "scramble a = uint w"
    using scramble_uint by blast
  show "0 \<le> scramble a" by (simp add: w)
  show "scramble a < 4294967296" using uint_lt2p [of w] by (simp add: w)
qed

lemma rand_scramble:
  "rand a = (of_int (scramble (fl64 (a + 1831565813))) / 4294967296, fl64 (a + 1831565813))"
proof -
  have "real (unat w) = real_of_int (uint w)" for w :: "32 word"
    by simp
  then show ?thesis
    by (simp only: rand_def Let_def scramble_def uint_mix uint_word_of_int_eq) simp
qed

lemma rand_exact:
  "\<bar>a + 1831565813\<bar> < 2 ^ 53 \<Longrightarrow>
     rand a = (of_int (scramble (a + 1831565813)) / 4294967296, a + 1831565813)"
  by (simp add: rand_scramble fl64_exact)

lemma rand_range: "0 \<le> fst (rand a)" "fst (rand a) < 1"
  using scramble_range [of "fl64 (a + 1831565813)"] by (simp_all add: rand_scramble)

lemma delta_eq: "\<lfloor>(real_of_int x / 4294967296 - 1 / 2) * 8\<rfloor> = x div 536870912 - 4"
proof -
  have "(real_of_int x / 4294967296 - 1 / 2) * 8 = real_of_int x / real_of_int 536870912 - 4"
    by simp
  then show ?thesis
    by (simp only: floor_diff_numeral floor_divide_of_int_eq)
qed

lemma delta_range:
  assumes "0 \<le> r" "r < 1"
  shows "- 4 \<le> \<lfloor>(r - 1 / 2) * 8\<rfloor> \<and> \<lfloor>(r - 1 / 2) * 8 :: real\<rfloor> \<le> 3"
proof -
  have "- 4 \<le> (r - 1 / 2) * 8" and "(r - 1 / 2) * 8 < 4"
    using assms by simp_all
  then show ?thesis
    by (simp add: le_floor_iff floor_le_iff)
qed

lemma index_range:
  assumes "0 \<le> r" "r < 1"
  shows "nat \<lfloor>r * real n\<rfloor> < n \<or> n = 0"
proof (cases "n = 0")
  case False
  then have "r * real n < real n"
    using assms by simp
  then have "\<lfloor>r * real n\<rfloor> < int n"
    by (simp add: floor_less_iff)
  then show ?thesis by linarith
qed simp

subsection \<open>The bits and the decimal\<close>

lemma draw_bits_four:
  "\<exists>b1 b2 b3 b4 a'. draw_bits [c1, c2, c3, c4] a = ([b1, b2, b3, b4], a') \<and>
     b1 \<in> {0, 1} \<and> b2 \<in> {0, 1} \<and> b3 \<in> {0, 1} \<and> b4 \<in> {0, 1}"
  by (simp add: split_beta Let_def)

lemma weighted_sum_four:
  "weighted_sum [c1, c2, c3, c4] [b1, b2, b3, b4] = b1 * c1 + b2 * c2 + b3 * c3 + b4 * c4"
  by (simp add: weighted_sum_def upt_rec)

subsection \<open>The retry loop, when it returns\<close>

lemma set_add_props:
  "distinct ws \<Longrightarrow> distinct (set_add ws v)"
  "set (set_add ws v) = insert v (set ws)"
  "length (set_add ws v) \<le> Suc (length ws)"
  by (auto simp: set_add_def)

lemma next_wrong_props:
  assumes "distinct ws" "dec \<notin> set ws" "\<forall>w\<in>set ws. 0 \<le> w \<and> w \<le> 15"
  shows "distinct (next_wrong dec ws r)"
    and "dec \<notin> set (next_wrong dec ws r)"
    and "\<forall>w\<in>set (next_wrong dec ws r). 0 \<le> w \<and> w \<le> 15"
    and "length (next_wrong dec ws r) \<le> Suc (length ws)"
  using assms by (auto simp: next_wrong_def Let_def set_add_props)

lemma wrong_loop_unfold:
  "wrong_loop dec ws a =
     (if length ws < 3 then wrong_loop dec (next_wrong dec ws (fst (rand a))) (snd (rand a))
      else Some (ws, a))"
  by (subst wrong_loop.simps) (simp add: next_wrong_def Let_def split_beta)

lemma wrong_loop_Some:
  assumes "wrong_loop dec ws a = Some y"
  shows "distinct ws \<Longrightarrow> dec \<notin> set ws \<Longrightarrow> \<forall>w\<in>set ws. 0 \<le> w \<and> w \<le> 15 \<Longrightarrow>
         length ws \<le> 3 \<Longrightarrow>
         length (fst y) = 3 \<and> distinct (fst y) \<and> dec \<notin> set (fst y) \<and>
         (\<forall>w\<in>set (fst y). 0 \<le> w \<and> w \<le> 15)"
  using assms
proof (induction dec ws a y rule: wrong_loop.raw_induct [rotated, consumes 1])
  case (1 loop dec ws a y)
  note inv = "1.prems"(1-3)
  show ?case
  proof (cases "length ws < 3")
    case True
    let ?ws = "next_wrong dec ws (fst (rand a))"
    from True "1.hyps" have "loop dec ?ws (snd (rand a)) = Some y"
      by (simp add: next_wrong_def Let_def split_beta)
    moreover have "length ?ws \<le> 3"
      using next_wrong_props(4) [OF inv, of "fst (rand a)"] True by simp
    ultimately show ?thesis
      using "1.IH" next_wrong_props(1-3) [OF inv] by blast
  next
    case False
    with "1.hyps" "1.prems" show ?thesis by auto
  qed
qed

subsection \<open>The shuffle\<close>

lemma shuffle_from_props:
  "k < length xs \<Longrightarrow>
     length (fst (shuffle_from k xs a)) = length xs \<and>
     set (fst (shuffle_from k xs a)) = set xs \<and>
     distinct (fst (shuffle_from k xs a)) = distinct xs"
proof (induction k arbitrary: xs a)
  case 0
  show ?case by simp
next
  case (Suc k)
  let ?j = "nat \<lfloor>fst (rand a) * real (Suc k + 1)\<rfloor>"
  let ?xs = "xs[Suc k := xs ! ?j, ?j := xs ! Suc k]"
  have "?j < Suc k + 1"
    using index_range [OF rand_range, of a "Suc k + 1"] by simp
  with Suc.prems have j: "?j < length xs" by simp
  have "k < length ?xs" using Suc.prems by simp
  from Suc.IH [OF this, of "snd (rand a)"] set_swap [OF _ j, of "Suc k"]
    distinct_swap [OF _ j, of "Suc k"] Suc.prems
  show ?case
    by (simp add: Let_def split_beta)
qed

subsection \<open>The alternatives\<close>

lemma make_alternatives_four:
  "make_alternatives [l0, l1, l2, l3] [v0, v1, v2, v3] dec =
     [\<lparr>alt_id = ''opt0'', alt_value = v0, alt_label = l0, alt_correct = (v0 = dec)\<rparr>,
      \<lparr>alt_id = ''opt1'', alt_value = v1, alt_label = l1, alt_correct = (v1 = dec)\<rparr>,
      \<lparr>alt_id = ''opt2'', alt_value = v2, alt_label = l2, alt_correct = (v2 = dec)\<rparr>,
      \<lparr>alt_id = ''opt3'', alt_value = v3, alt_label = l3, alt_correct = (v3 = dec)\<rparr>]"
  by (simp add: make_alternatives_def upt_rec digits.simps)

lemma length_four: "length xs = 4 \<Longrightarrow> \<exists>v0 v1 v2 v3. xs = [v0, v1, v2, v3]"
  by (cases xs; simp; cases "tl xs"; simp; cases "tl (tl xs)"; simp; cases "tl (tl (tl xs))"; auto)

subsection \<open>The structure of a returned instance\<close>

lemma build_SomeD:
  assumes "buildInstanceFromSeed s = Some inst"
  obtains bs a1 ws a2 sh a3 where
    "draw_bits [8, 4, 2, 1] s = (bs, a1)"
    "wrong_loop (weighted_sum [8, 4, 2, 1] bs) [] a1 = Some (ws, a2)"
    "shuffle_from (length ws) (weighted_sum [8, 4, 2, 1] bs # ws) a2 = (sh, a3)"
    "inst = \<lparr>cards = [8, 4, 2, 1], bits = bs, decimal = weighted_sum [8, 4, 2, 1] bs,
       alternatives = make_alternatives [''A'', ''B'', ''C'', ''D''] sh (weighted_sum [8, 4, 2, 1] bs),
       seed = s\<rparr>"
  using assms
  by (auto simp: buildInstanceFromSeed_def mulberry32_def Let_def
        split: prod.splits option.splits)

lemma build_shape:
  assumes "buildInstanceFromSeed s = Some inst"
  shows "\<exists>b1 b2 b3 b4 w1 w2 w3 a1 a2 v0 v1 v2 v3.
     cards inst = [8, 4, 2, 1] \<and> seed inst = s \<and>
     bits inst = [b1, b2, b3, b4] \<and>
     b1 \<in> {0, 1} \<and> b2 \<in> {0, 1} \<and> b3 \<in> {0, 1} \<and> b4 \<in> {0, 1} \<and>
     decimal inst = b1 * 8 + b2 * 4 + b3 * 2 + b4 * 1 \<and>
     draw_bits [8, 4, 2, 1] s = ([b1, b2, b3, b4], a1) \<and>
     wrong_loop (decimal inst) [] a1 = Some ([w1, w2, w3], a2) \<and>
     distinct [decimal inst, w1, w2, w3] \<and>
     (\<forall>w\<in>{w1, w2, w3}. 0 \<le> w \<and> w \<le> 15) \<and>
     fst (shuffle_from 3 [decimal inst, w1, w2, w3] a2) = [v0, v1, v2, v3] \<and>
     set [v0, v1, v2, v3] = set [decimal inst, w1, w2, w3] \<and>
     distinct [v0, v1, v2, v3] \<and>
     alternatives inst =
       [\<lparr>alt_id = ''opt0'', alt_value = v0, alt_label = ''A'', alt_correct = (v0 = decimal inst)\<rparr>,
        \<lparr>alt_id = ''opt1'', alt_value = v1, alt_label = ''B'', alt_correct = (v1 = decimal inst)\<rparr>,
        \<lparr>alt_id = ''opt2'', alt_value = v2, alt_label = ''C'', alt_correct = (v2 = decimal inst)\<rparr>,
        \<lparr>alt_id = ''opt3'', alt_value = v3, alt_label = ''D'', alt_correct = (v3 = decimal inst)\<rparr>]"
proof -
  from assms obtain bs a1 ws a2 sh a3 where
    db: "draw_bits [8, 4, 2, 1] s = (bs, a1)"
    and wl: "wrong_loop (weighted_sum [8, 4, 2, 1] bs) [] a1 = Some (ws, a2)"
    and sh: "shuffle_from (length ws) (weighted_sum [8, 4, 2, 1] bs # ws) a2 = (sh, a3)"
    and inst: "inst = \<lparr>cards = [8, 4, 2, 1], bits = bs, decimal = weighted_sum [8, 4, 2, 1] bs,
       alternatives = make_alternatives [''A'', ''B'', ''C'', ''D''] sh (weighted_sum [8, 4, 2, 1] bs),
       seed = s\<rparr>"
    by (rule build_SomeD)
  let ?d = "weighted_sum [8, 4, 2, 1] bs"
  from draw_bits_four [of 8 4 2 1 s] db obtain b1 b2 b3 b4 where
    bs: "bs = [b1, b2, b3, b4]"
    and b01: "b1 \<in> {0, 1}" "b2 \<in> {0, 1}" "b3 \<in> {0, 1}" "b4 \<in> {0, 1}"
    by auto
  have d: "?d = b1 * 8 + b2 * 4 + b3 * 2 + b4 * 1"
    unfolding bs by (rule weighted_sum_four)
  from wrong_loop_Some [OF wl] have ws: "length ws = 3" "distinct ws" "?d \<notin> set ws"
    "\<forall>w\<in>set ws. 0 \<le> w \<and> w \<le> 15"
    by simp_all
  from ws(1) obtain w1 w2 w3 where ws3: "ws = [w1, w2, w3]"
    by (cases ws; simp; cases "tl ws"; simp; cases "tl (tl ws)"; auto)
  from shuffle_from_props [of 3 "?d # ws" a2] sh ws
  have shp: "length sh = 4" "set sh = set (?d # ws)" "distinct sh"
    by simp_all
  from length_four [OF shp(1)] obtain v0 v1 v2 v3 where sh4: "sh = [v0, v1, v2, v3]"
    by blast
  have alts: "alternatives inst =
       [\<lparr>alt_id = ''opt0'', alt_value = v0, alt_label = ''A'', alt_correct = (v0 = decimal inst)\<rparr>,
        \<lparr>alt_id = ''opt1'', alt_value = v1, alt_label = ''B'', alt_correct = (v1 = decimal inst)\<rparr>,
        \<lparr>alt_id = ''opt2'', alt_value = v2, alt_label = ''C'', alt_correct = (v2 = decimal inst)\<rparr>,
        \<lparr>alt_id = ''opt3'', alt_value = v3, alt_label = ''D'', alt_correct = (v3 = decimal inst)\<rparr>]"
    by (simp only: inst sh4 make_alternatives_four QuizInstance.simps)
  have dec: "decimal inst = ?d" by (simp add: inst)
  show ?thesis
    apply (rule exI [of _ b1], rule exI [of _ b2], rule exI [of _ b3], rule exI [of _ b4])
    apply (rule exI [of _ w1], rule exI [of _ w2], rule exI [of _ w3])
    apply (rule exI [of _ a1], rule exI [of _ a2])
    apply (rule exI [of _ v0], rule exI [of _ v1], rule exI [of _ v2], rule exI [of _ v3])
    using b01 d ws shp wl sh db alts
    apply (simp only: dec)
    apply (simp add: inst bs ws3 sh4)
    done
qed

subsection \<open>Every window of the stream holds each needed draw\<close>

lemma chk_nth:
  "chk v base xs \<Longrightarrow> i < length xs \<Longrightarrow>
     0 \<le> xs ! i \<and> xs ! i < 64 \<and>
     drop_bit 29 (scramble (base + int i * 8974672483700000 + xs ! i * 1831565813)) = v"
proof (induction xs arbitrary: base i)
  case Nil
  then show ?case by simp
next
  case (Cons x xs)
  show ?case
  proof (cases i)
    case 0
    with Cons.prems show ?thesis by simp
  next
    case (Suc i')
    with Cons.prems have "chk v (base + 8974672483700000) xs" "i' < length xs"
      by simp_all
    from Cons.IH [OF this] Suc show ?thesis
      by (simp add: algebra_simps)
  qed
qed

text \<open>
  The draw depends on the accumulator modulo \<open>2^32\<close> only, and every residue is a
  multiple of the increment: \<open>3696798301\<close> is its inverse modulo \<open>2^32\<close>. So from any
  accumulator \<open>a\<close>, the state of a table entry is reached after \<open>k\<close> exact updates, with
  \<open>k\<close> between 1 and \<open>4900000 + 63\<close>.
\<close>

lemma scramble_cong: "a mod 4294967296 = b mod 4294967296 \<Longrightarrow> scramble a = scramble b"
  by (simp add: scramble_def take_bit_eq_mod)

lemma state_index:
  fixes a :: int
  defines "n \<equiv> (a * 3696798301) mod 4294967296"
  shows "(n * 1831565813) mod 4294967296 = a mod 4294967296"
proof -
  have "(n * 1831565813) mod 4294967296 = (a * 3696798301 * 1831565813) mod 4294967296"
    unfolding n_def by (rule mod_mult_left_eq)
  also have "\<dots> = (a * (3696798301 * 1831565813)) mod 4294967296"
    by (simp only: mult.assoc)
  also have "\<dots> = (a * ((3696798301 * 1831565813) mod 4294967296)) mod 4294967296"
    by (rule mod_mult_right_eq [symmetric])
  also have "\<dots> = a mod 4294967296"
    by simp
  finally show ?thesis .
qed

lemma window:
  assumes "chk v 8974672483700000 offs" and "length offs = 877"
  shows "\<exists>k. 1 \<le> k \<and> k \<le> 4900063 \<and> drop_bit 29 (scramble (a + k * 1831565813)) = v"
proof -
  define n where "n = (a * 3696798301) mod 4294967296"
  define i where "i = nat (n div 4900000)"
  define y where "y = (int i + 1) * 4900000 + offs ! i"
  have n: "0 \<le> n" "n < 4294967296"
    by (simp_all add: n_def)
  then have i: "int i = n div 4900000" "i < 877"
    by (simp_all add: i_def)
  with assms(2) have "i < length offs" by simp
  from chk_nth [OF assms(1) this]
  have off: "0 \<le> offs ! i" "offs ! i < 64"
    and v: "drop_bit 29 (scramble (8974672483700000 + int i * 8974672483700000 + offs ! i * 1831565813)) = v"
    by simp_all
  have yc: "8974672483700000 + int i * 8974672483700000 + offs ! i * 1831565813 = y * 1831565813"
    by (simp add: y_def algebra_simps)
  have "n = 4900000 * (n div 4900000) + n mod 4900000"
    by simp
  moreover have "0 \<le> n mod 4900000" "n mod 4900000 < 4900000"
    by simp_all
  ultimately have k: "1 \<le> y - n" "y - n \<le> 4900063"
    using off i(1) unfolding y_def by (simp_all add: algebra_simps)
  have "(a + (y - n) * 1831565813) mod 4294967296
      = (a mod 4294967296 + ((y - n) * 1831565813) mod 4294967296) mod 4294967296"
    by (rule mod_add_eq [symmetric])
  also have "a mod 4294967296 = (n * 1831565813) mod 4294967296"
    unfolding n_def by (rule state_index [symmetric])
  also have "((n * 1831565813) mod 4294967296 + ((y - n) * 1831565813) mod 4294967296) mod 4294967296
      = (n * 1831565813 + (y - n) * 1831565813) mod 4294967296"
    by (rule mod_add_eq)
  also have "n * 1831565813 + (y - n) * 1831565813 = y * 1831565813"
    by (simp add: algebra_simps)
  finally have "scramble (a + (y - n) * 1831565813) = scramble (y * 1831565813)"
    by (rule scramble_cong)
  with v yc k show ?thesis by metis
qed

subsection \<open>The retry loop returns\<close>

lemma step_exact:
  assumes "- (2 ^ 53) < a" "a + 1831565813 < 2 ^ 53"
  shows "snd (rand a) = a + 1831565813"
    and "next_wrong dec ws (fst (rand a)) =
           (if cand dec (a + 1831565813) \<noteq> dec then set_add ws (cand dec (a + 1831565813)) else ws)"
proof -
  from assms have "\<bar>a + 1831565813\<bar> < 2 ^ 53" by simp
  then have r: "rand a = (of_int (scramble (a + 1831565813)) / 4294967296, a + 1831565813)"
    by (rule rand_exact)
  show "snd (rand a) = a + 1831565813" by (simp add: r)
  show "next_wrong dec ws (fst (rand a)) =
           (if cand dec (a + 1831565813) \<noteq> dec then set_add ws (cand dec (a + 1831565813)) else ws)"
    by (simp only: r fst_conv next_wrong_def cand_def delta_eq Let_def)
qed

text \<open>
  If three distinct values other than the decimal each are either in the set already or
  the candidate of one of the next \<open>n\<close> draws, and the accumulator stays in the exact
  range for \<open>n\<close> updates, the loop returns within \<open>n\<close> draws.
\<close>

lemma wrong_loop_returns_aux:
  assumes "w1 \<noteq> w2" "w1 \<noteq> w3" "w2 \<noteq> w3" "w1 \<noteq> dec" "w2 \<noteq> dec" "w3 \<noteq> dec"
  shows "- (2 ^ 53) < a \<Longrightarrow> a + int n * 1831565813 < 2 ^ 53 \<Longrightarrow>
         (\<forall>w\<in>{w1, w2, w3}. w \<in> set ws \<or>
            (\<exists>k. 1 \<le> k \<and> k \<le> int n \<and> cand dec (a + k * 1831565813) = w)) \<Longrightarrow>
         \<exists>ws' a'. wrong_loop dec ws a = Some (ws', a') \<and>
           a \<le> a' \<and> a' \<le> a + int n * 1831565813"
proof (induction n arbitrary: a ws)
  case 0
  then have "{w1, w2, w3} \<subseteq> set ws" by auto
  then have "card {w1, w2, w3} \<le> card (set ws)"
    by (intro card_mono) simp_all
  also have "\<dots> \<le> length ws" by (rule card_length)
  finally have "\<not> length ws < 3" using assms(1-3) by simp
  then show ?case
    by (subst wrong_loop_unfold) simp
next
  case (Suc n)
  show ?case
  proof (cases "length ws < 3")
    case False
    then show ?thesis by (subst wrong_loop_unfold) simp
  next
    case True
    let ?a = "a + 1831565813"
    let ?ws = "if cand dec ?a \<noteq> dec then set_add ws (cand dec ?a) else ws"
    from Suc.prems(1,2) have ex: "- (2 ^ 53) < a" "a + 1831565813 < 2 ^ 53"
      by (simp_all add: algebra_simps)
    have "- (2 ^ 53) < ?a" using Suc.prems(1) by simp
    moreover have "?a + int n * 1831565813 < 2 ^ 53"
      using Suc.prems(2) by (simp add: algebra_simps)
    moreover have "\<forall>w\<in>{w1, w2, w3}. w \<in> set ?ws \<or>
            (\<exists>k. 1 \<le> k \<and> k \<le> int n \<and> cand dec (?a + k * 1831565813) = w)"
    proof
      fix w assume w: "w \<in> {w1, w2, w3}"
      with assms have "w \<noteq> dec" by auto
      from Suc.prems(3) w consider "w \<in> set ws"
        | k where "1 \<le> k" "k \<le> int (Suc n)" "cand dec (a + k * 1831565813) = w"
        by blast
      then show "w \<in> set ?ws \<or>
            (\<exists>k. 1 \<le> k \<and> k \<le> int n \<and> cand dec (?a + k * 1831565813) = w)"
      proof cases
        case 1
        then show ?thesis by (simp add: set_add_props)
      next
        case 2
        show ?thesis
        proof (cases "k = 1")
          case True
          with 2 \<open>w \<noteq> dec\<close> show ?thesis by (simp add: set_add_props)
        next
          case False
          with 2 have "1 \<le> k - 1" "k - 1 \<le> int n"
            "cand dec (?a + (k - 1) * 1831565813) = w"
            by (simp_all add: algebra_simps)
          then show ?thesis by blast
        qed
      qed
    qed
    ultimately have "\<exists>ws' a'. wrong_loop dec ?ws ?a = Some (ws', a') \<and>
           ?a \<le> a' \<and> a' \<le> ?a + int n * 1831565813"
      by (rule Suc.IH)
    then obtain ws' a' where "wrong_loop dec ?ws ?a = Some (ws', a')"
      and "?a \<le> a'" "a' \<le> ?a + int n * 1831565813"
      by blast
    then have "wrong_loop dec ?ws ?a = Some (ws', a') \<and>
           a \<le> a' \<and> a' \<le> a + int (Suc n) * 1831565813"
      by (simp add: algebra_simps)
    with True show ?thesis
      by (subst wrong_loop_unfold) (simp only: step_exact [OF ex] if_True, blast)
  qed
qed

lemma cand_of_top:
  "drop_bit 29 (scramble a) = v \<Longrightarrow> cand dec a = max 0 (min 15 (dec + (v - 4)))"
  by (simp add: cand_def drop_bit_eq_div)

subsection \<open>The tables\<close>

lemma chk1: "chk 1 8974672483700000 offs1"
  by code_simp
lemma chk2: "chk 2 8974672483700000 offs2"
  by code_simp
lemma chk3: "chk 3 8974672483700000 offs3"
  by code_simp
lemma chk5: "chk 5 8974672483700000 offs5"
  by code_simp
lemma chk6: "chk 6 8974672483700000 offs6"
  by code_simp
lemma chk7: "chk 7 8974672483700000 offs7"
  by code_simp

lemma len_offs:
  "length offs1 = 877" "length offs2 = 877" "length offs3 = 877"
  "length offs5 = 877" "length offs6 = 877" "length offs7 = 877"
  by (simp_all add: offs1_def offs2_def offs3_def offs5_def offs6_def offs7_def)

subsection \<open>Seeds below \<open>2^32\<close>\<close>

text \<open>
  For a decimal up to 12 the candidates \<open>dec + 1\<close>, \<open>dec + 2\<close>, \<open>dec + 3\<close> come from
  draws with the top bits 5, 6, 7; for a decimal from 13 the candidates \<open>dec - 1\<close>,
  \<open>dec - 2\<close>, \<open>dec - 3\<close> come from draws with the top bits 3, 2, 1. The tables give each of
  them within 4900063 draws.
\<close>

lemma wrong_loop_returns:
  assumes "0 \<le> dec" "dec \<le> 15" "- (2 ^ 53) < a" "a + 4900063 * 1831565813 < 2 ^ 53"
  shows "\<exists>ws' a'. wrong_loop dec [] a = Some (ws', a') \<and>
           a \<le> a' \<and> a' \<le> a + int 4900063 * 1831565813"
proof -
  have win: "\<exists>k. 1 \<le> k \<and> k \<le> int 4900063 \<and> cand dec (a + k * 1831565813) = max 0 (min 15 (dec + (v - 4)))"
    if "chk v 8974672483700000 offs" "length offs = 877" for v offs
    using window [OF that, of a] cand_of_top [of _ v dec] by auto
  have bound: "a + int 4900063 * 1831565813 < 2 ^ 53"
    using assms(4) by simp
  show ?thesis
  proof (cases "dec \<le> 12")
    case True
    have "\<forall>w\<in>{dec + 1, dec + 2, dec + 3}. w \<in> set [] \<or>
            (\<exists>k. 1 \<le> k \<and> k \<le> int 4900063 \<and> cand dec (a + k * 1831565813) = w)"
      using win [OF chk5 len_offs(4)] win [OF chk6 len_offs(5)] win [OF chk7 len_offs(6)]
        True assms(1)
      by simp
    then show ?thesis
      by (rule wrong_loop_returns_aux [OF _ _ _ _ _ _ assms(3) bound, rotated -1]) simp_all
  next
    case False
    have "\<forall>w\<in>{dec - 1, dec - 2, dec - 3}. w \<in> set [] \<or>
            (\<exists>k. 1 \<le> k \<and> k \<le> int 4900063 \<and> cand dec (a + k * 1831565813) = w)"
      using win [OF chk3 len_offs(3)] win [OF chk2 len_offs(2)] win [OF chk1 len_offs(1)]
        False assms(2)
      by simp
    then show ?thesis
      by (rule wrong_loop_returns_aux [OF _ _ _ _ _ _ assms(3) bound, rotated -1]) simp_all
  qed
qed

lemma draw_bits_state:
  "- (2 ^ 53) < a \<Longrightarrow> a + int (length cs) * 1831565813 < 2 ^ 53 \<Longrightarrow>
     snd (draw_bits cs a) = a + int (length cs) * 1831565813"
proof (induction cs arbitrary: a)
  case Nil
  show ?case by simp
next
  case (Cons c cs)
  from Cons.prems have ex: "- (2 ^ 53) < a" "a + 1831565813 < 2 ^ 53"
    by (simp_all add: algebra_simps)
  have "snd (draw_bits cs (a + 1831565813)) = a + 1831565813 + int (length cs) * 1831565813"
    using Cons.prems by (intro Cons.IH) (simp_all add: algebra_simps)
  then show ?case
    by (simp add: split_beta Let_def step_exact(1) [OF ex] algebra_simps)
qed

lemma build_returns_bound:
  assumes "- (2 ^ 31) \<le> s" "s < 2 ^ 32"
  shows "\<exists>inst ws a2. buildInstanceFromSeed s = Some inst \<and>
           wrong_loop (decimal inst) [] (s + 4 * 1831565813) = Some (ws, a2) \<and>
           a2 \<le> s + 4900067 * 1831565813"
proof -
  obtain b1 b2 b3 b4 a1 where db: "draw_bits [8, 4, 2, 1] s = ([b1, b2, b3, b4], a1)"
    and b01: "b1 \<in> {0, 1}" "b2 \<in> {0, 1}" "b3 \<in> {0, 1}" "b4 \<in> {0, 1}"
    using draw_bits_four [of 8 4 2 1 s] by blast
  have "snd (draw_bits [8, 4, 2, 1] s) = s + int (length [8, 4, 2, 1 :: int]) * 1831565813"
    using assms by (intro draw_bits_state) simp_all
  with db have a1: "a1 = s + 4 * 1831565813" by simp
  let ?d = "weighted_sum [8, 4, 2, 1] [b1, b2, b3, b4]"
  have d: "0 \<le> ?d" "?d \<le> 15"
    using b01 by (auto simp: weighted_sum_four)
  have "\<exists>ws a2. wrong_loop ?d [] a1 = Some (ws, a2) \<and>
           a1 \<le> a2 \<and> a2 \<le> a1 + int 4900063 * 1831565813"
    using assms d unfolding a1 by (intro wrong_loop_returns) simp_all
  then obtain ws a2 where wl: "wrong_loop ?d [] a1 = Some (ws, a2)"
    and a2: "a2 \<le> a1 + int 4900063 * 1831565813"
    by auto
  from db wl have "\<exists>inst. buildInstanceFromSeed s = Some inst \<and> decimal inst = ?d"
    by (simp add: buildInstanceFromSeed_def mulberry32_def Let_def split_beta)
  with wl a2 show ?thesis
    unfolding a1 by auto
qed

subsection \<open>A seed beyond the exact range\<close>

text \<open>
  At \<open>2^84\<close> the spacing of binary64 values is \<open>2^32\<close>, more than twice the increment:
  the update leaves the accumulator where it was, and the draw made there is 0.
\<close>

lemma fl64_stuck: "fl64 19342813113834068626864629 = 19342813113834066795298816"
proof -
  have "bitlen (2 ^ 84 + 1831565813) = int (84 + 1)"
    by (rule bitlen_twopow_add_eq) simp_all
  then have "bitlen 19342813113834068626864629 = 85"
    by simp
  then show ?thesis
    by (simp add: fl64_def Let_def)
qed

lemma fl64_ties_to_even:
  "fl64 9007199254740993 = 9007199254740992"
  "fl64 9007199254740995 = 9007199254740996"
  "fl64 (- 18014398509481990) = - 18014398509481992"
proof -
  have "bitlen (2 ^ 53 + 1) = int (53 + 1)" "bitlen (2 ^ 53 + 3) = int (53 + 1)"
    "bitlen (2 ^ 54 + 6) = int (54 + 1)"
    by (rule bitlen_twopow_add_eq; simp)+
  then have b: "bitlen 9007199254740993 = 54" "bitlen 9007199254740995 = 54"
    "bitlen 18014398509481990 = 55"
    by simp_all
  show "fl64 9007199254740993 = 9007199254740992"
    "fl64 9007199254740995 = 9007199254740996"
    "fl64 (- 18014398509481990) = - 18014398509481992"
    by (simp_all add: fl64_def Let_def b)
qed

lemma rand_stuck:
  "rand 19342813113834066795298816 = (0, 19342813113834066795298816)"
  by (simp add: rand_scramble fl64_stuck scramble_def mix1_def mix2_def mix3_def)

lemma wrong_loop_stuck: "wrong_loop 0 [] 19342813113834066795298816 = None"
proof -
  have "wrong_loop dec ws a = Some y \<Longrightarrow>
          dec = 0 \<Longrightarrow> ws = [] \<Longrightarrow> a = 19342813113834066795298816 \<Longrightarrow> False" for dec ws a y
  proof (induction dec ws a y rule: wrong_loop.raw_induct [rotated, consumes 1])
    case (1 loop dec ws a y)
    from "1.hyps" "1.prems" have "loop 0 [] 19342813113834066795298816 = Some y"
      by (simp add: rand_stuck)
    with "1.IH" show False by blast
  qed
  then show ?thesis
    by (cases "wrong_loop 0 [] 19342813113834066795298816") auto
qed

lemma build_stuck: "buildInstanceFromSeed 19342813113834066795298816 = None"
proof -
  have "draw_bits [8, 4, 2, 1] 19342813113834066795298816 = ([0, 0, 0, 0], 19342813113834066795298816)"
    by (simp add: rand_stuck)
  then show ?thesis
    by (simp add: buildInstanceFromSeed_def mulberry32_def Let_def weighted_sum_four
          wrong_loop_stuck del: draw_bits.simps)
qed

subsection \<open>The instance of seed 12345\<close>

lemma rand_12345:
  "rand 12345 = (4207900869 / 4294967296, 1831578158)"
  "rand 1831578158 = (1317490944 / 4294967296, 3663143971)"
  "rand 3663143971 = (2079646450 / 4294967296, 5494709784)"
  "rand 5494709784 = (3513001552 / 4294967296, 7326275597)"
  "rand 7326275597 = (2187978186 / 4294967296, 9157841410)"
  "rand 9157841410 = (1492380277 / 4294967296, 10989407223)"
  "rand 10989407223 = (316786230 / 4294967296, 12820973036)"
  "rand 12820973036 = (3291647763 / 4294967296, 14652538849)"
  "rand 14652538849 = (4281336957 / 4294967296, 16484104662)"
  "rand 16484104662 = (3543444592 / 4294967296, 18315670475)"
  "rand 18315670475 = (1975405240 / 4294967296, 20147236288)"
  by (simp_all add: rand_exact scramble_def mix1_def mix2_def mix3_def)

lemma draw_bits_12345: "draw_bits [8, 4, 2, 1] 12345 = ([1, 0, 0, 1], 7326275597)"
  by (simp add: rand_12345)

lemma wrong_loop_12345: "wrong_loop 9 [] 7326275597 = Some ([7, 5, 11], 14652538849)"
  by (simp add: wrong_loop_unfold next_wrong_def set_add_def rand_12345)

lemma shuffle_12345:
  "shuffle_from (Suc (Suc (Suc 0))) [9, 7, 5, 11] 14652538849 = ([7, 9, 5, 11], 20147236288)"
  by (simp add: rand_12345)

lemma build_12345:
  "buildInstanceFromSeed 12345 =
     Some \<lparr>cards = [8, 4, 2, 1], bits = [1, 0, 0, 1], decimal = 9,
       alternatives =
         [\<lparr>alt_id = ''opt0'', alt_value = 7, alt_label = ''A'', alt_correct = False\<rparr>,
          \<lparr>alt_id = ''opt1'', alt_value = 9, alt_label = ''B'', alt_correct = True\<rparr>,
          \<lparr>alt_id = ''opt2'', alt_value = 5, alt_label = ''C'', alt_correct = False\<rparr>,
          \<lparr>alt_id = ''opt3'', alt_value = 11, alt_label = ''D'', alt_correct = False\<rparr>],
       seed = 12345\<rparr>"
  by (simp add: buildInstanceFromSeed_def mulberry32_def Let_def draw_bits_12345
        weighted_sum_four wrong_loop_12345 shuffle_12345 make_alternatives_four
        del: draw_bits.simps shuffle_from.simps)

subsection \<open>The shuffle of the source and of the specification\<close>

lemma shuffle_from_spec: "fst (shuffle_from 3 xs a) = spec_shuffle xs a"
  by (simp add: numeral_3_eq_3 numeral_2_eq_2 spec_shuffle_def spec_swap_def Let_def split_beta)

subsection \<open>The instance of seed 500000000\<close>

lemma rand_500000000:
  "rand 500000000 = (3093684393 / 4294967296, 2331565813)"
  "rand 2331565813 = (1176369506 / 4294967296, 4163131626)"
  "rand 4163131626 = (2378429956 / 4294967296, 5994697439)"
  "rand 5994697439 = (382383225 / 4294967296, 7826263252)"
  "rand 7826263252 = (879372282 / 4294967296, 9657829065)"
  "rand 9657829065 = (2257152287 / 4294967296, 11489394878)"
  "rand 11489394878 = (400053034 / 4294967296, 13320960691)"
  "rand 13320960691 = (2718139560 / 4294967296, 15152526504)"
  "rand 15152526504 = (1521441035 / 4294967296, 16984092317)"
  "rand 16984092317 = (4020825260 / 4294967296, 18815658130)"
  "rand 18815658130 = (447277483 / 4294967296, 20647223943)"
  by (simp_all add: rand_exact scramble_def mix1_def mix2_def mix3_def)

lemma draw_bits_500000000: "draw_bits [8, 4, 2, 1] 500000000 = ([1, 0, 1, 0], 7826263252)"
  by (simp add: rand_500000000)

lemma wrong_loop_500000000: "wrong_loop 10 [] 7826263252 = Some ([7, 6, 11], 15152526504)"
  by (simp add: wrong_loop_unfold next_wrong_def set_add_def rand_500000000)

lemma shuffle_500000000:
  "shuffle_from (Suc (Suc (Suc 0))) [10, 7, 6, 11] 15152526504 = ([11, 10, 6, 7], 20647223943)"
  by (simp add: rand_500000000)

lemma build_500000000:
  "buildInstanceFromSeed 500000000 =
     Some \<lparr>cards = [8, 4, 2, 1], bits = [1, 0, 1, 0], decimal = 10,
       alternatives =
         [\<lparr>alt_id = ''opt0'', alt_value = 11, alt_label = ''A'', alt_correct = False\<rparr>,
          \<lparr>alt_id = ''opt1'', alt_value = 10, alt_label = ''B'', alt_correct = True\<rparr>,
          \<lparr>alt_id = ''opt2'', alt_value = 6, alt_label = ''C'', alt_correct = False\<rparr>,
          \<lparr>alt_id = ''opt3'', alt_value = 7, alt_label = ''D'', alt_correct = False\<rparr>],
       seed = 500000000\<rparr>"
  by (simp add: buildInstanceFromSeed_def mulberry32_def Let_def draw_bits_500000000
        weighted_sum_four wrong_loop_500000000 shuffle_500000000 make_alternatives_four
        del: draw_bits.simps shuffle_from.simps)

subsection \<open>Calls in a store\<close>

text \<open>
  A call through the store reads and writes the cell of its own closure only: each
  function on the store is the function on the accumulator, applied to the content of the
  cell. So the instance a call returns, and whether it returns, do not depend on the store
  it starts in, and the call leaves the cells of earlier closures as they were.
\<close>

lemma rand_st_eq: "rand_st f h = (fst (rand (h ! f)), h[f := snd (rand (h ! f))])"
  by (simp add: rand_st_def split_beta)

lemma draw_bits_st_eq:
  "f < length h \<Longrightarrow>
     draw_bits_st cs f h = (fst (draw_bits cs (h ! f)), h[f := snd (draw_bits cs (h ! f))])"
  by (induction cs arbitrary: h) (simp_all add: rand_st_eq split_beta Let_def)

lemma shuffle_from_st_eq:
  "f < length h \<Longrightarrow>
     shuffle_from_st k xs f h =
       (fst (shuffle_from k xs (h ! f)), h[f := snd (shuffle_from k xs (h ! f))])"
  by (induction k arbitrary: xs h) (simp_all add: rand_st_eq split_beta Let_def)

lemma wrong_loop_st_unfold:
  "wrong_loop_st dec ws f h =
     (if length ws < 3
      then wrong_loop_st dec (next_wrong dec ws (fst (rand (h ! f)))) f (h[f := snd (rand (h ! f))])
      else Some (ws, h))"
  by (subst wrong_loop_st.simps) (simp add: next_wrong_def rand_st_eq Let_def)

lemma wrong_loop_to_st:
  assumes "wrong_loop dec ws a = Some y"
  shows "f < length h \<Longrightarrow> h ! f = a \<Longrightarrow>
           wrong_loop_st dec ws f h = Some (fst y, h[f := snd y])"
  using assms
proof (induction dec ws a y arbitrary: h rule: wrong_loop.raw_induct [rotated, consumes 1])
  case (1 loop dec ws a y)
  show ?case
  proof (cases "length ws < 3")
    case True
    let ?h = "h[f := snd (rand a)]"
    from True "1.hyps" have "loop dec (next_wrong dec ws (fst (rand a))) (snd (rand a)) = Some y"
      by (simp add: next_wrong_def Let_def split_beta)
    moreover have "f < length ?h" "?h ! f = snd (rand a)"
      using "1.prems" by simp_all
    ultimately have "wrong_loop_st dec (next_wrong dec ws (fst (rand a))) f ?h
        = Some (fst y, ?h[f := snd y])"
      by (rule "1.IH")
    with True "1.prems" show ?thesis
      by (subst wrong_loop_st_unfold) simp
  next
    case False
    with "1.hyps" "1.prems" show ?thesis
      by (subst wrong_loop_st_unfold) auto
  qed
qed

lemma wrong_loop_from_st:
  assumes "wrong_loop_st dec ws f h = Some z"
  shows "f < length h \<Longrightarrow>
           \<exists>a'. wrong_loop dec ws (h ! f) = Some (fst z, a') \<and> snd z = h[f := a']"
  using assms
proof (induction dec ws f h z rule: wrong_loop_st.raw_induct [rotated, consumes 1])
  case (1 loop dec ws f h z)
  show ?case
  proof (cases "length ws < 3")
    case True
    let ?h = "h[f := snd (rand (h ! f))]"
    from True "1.hyps" have "loop dec (next_wrong dec ws (fst (rand (h ! f)))) f ?h = Some z"
      by (simp add: next_wrong_def rand_st_eq Let_def)
    moreover have "f < length ?h" using "1.prems" by simp
    ultimately obtain a' where
      "wrong_loop dec (next_wrong dec ws (fst (rand (h ! f)))) (?h ! f) = Some (fst z, a')"
      "snd z = ?h[f := a']"
      using "1.IH" by blast
    with True "1.prems" show ?thesis
      by (subst wrong_loop_unfold) simp
  next
    case False
    with "1.hyps" "1.prems" show ?thesis
      by (subst wrong_loop_unfold) auto
  qed
qed

lemma wrong_loop_st_eq:
  assumes "f < length h"
  shows "wrong_loop_st dec ws f h =
           map_option (\<lambda>y. (fst y, h[f := snd y])) (wrong_loop dec ws (h ! f))"
proof (cases "wrong_loop dec ws (h ! f)")
  case None
  with wrong_loop_from_st [OF _ assms, of dec ws] show ?thesis
    by (cases "wrong_loop_st dec ws f h") auto
next
  case (Some y)
  from wrong_loop_to_st [OF Some assms] Some show ?thesis by simp
qed

lemma build_st_eq:
  "buildInstanceFromSeed_st s h =
     (let (bs, a1) = draw_bits [8, 4, 2, 1] s;
          dec = weighted_sum [8, 4, 2, 1] bs
      in case wrong_loop dec [] a1 of
           None \<Rightarrow> None
         | Some (ws, a2) \<Rightarrow>
             Some (the (buildInstanceFromSeed s), h @ [snd (shuffle_from (length ws) (dec # ws) a2)]))"
  by (simp add: buildInstanceFromSeed_st_def buildInstanceFromSeed_def mulberry32_st_def
        mulberry32_def draw_bits_st_eq wrong_loop_st_eq shuffle_from_st_eq Let_def split_beta
        split: option.split
        del: draw_bits.simps draw_bits_st.simps shuffle_from.simps shuffle_from_st.simps)

lemma build_st_result: "map_option fst (buildInstanceFromSeed_st s h) = buildInstanceFromSeed s"
  by (simp add: build_st_eq buildInstanceFromSeed_def mulberry32_def Let_def split_beta
        split: option.split del: draw_bits.simps shuffle_from.simps)

lemma build_st_frame:
  "buildInstanceFromSeed_st s h = Some (inst, h') \<Longrightarrow> \<exists>a. h' = h @ [a]"
  by (auto simp: build_st_eq Let_def split_beta split: option.splits
        simp del: draw_bits.simps shuffle_from.simps)

lemma build_st_12345:
  "buildInstanceFromSeed_st 12345 h =
     Some (\<lparr>cards = [8, 4, 2, 1], bits = [1, 0, 0, 1], decimal = 9,
       alternatives =
         [\<lparr>alt_id = ''opt0'', alt_value = 7, alt_label = ''A'', alt_correct = False\<rparr>,
          \<lparr>alt_id = ''opt1'', alt_value = 9, alt_label = ''B'', alt_correct = True\<rparr>,
          \<lparr>alt_id = ''opt2'', alt_value = 5, alt_label = ''C'', alt_correct = False\<rparr>,
          \<lparr>alt_id = ''opt3'', alt_value = 11, alt_label = ''D'', alt_correct = False\<rparr>],
       seed = 12345\<rparr>, h @ [20147236288])"
  by (simp add: build_st_eq draw_bits_12345 weighted_sum_four wrong_loop_12345 shuffle_12345
        build_12345 del: draw_bits.simps shuffle_from.simps)

subsection \<open>The seed of the handler\<close>

lemma fl64_bounds:
  assumes "0 \<le> x"
  shows "0 \<le> fl64 x \<and> fl64 x \<le> 2 * x"
proof (cases "bitlen \<bar>x\<bar> - 53 \<le> 0")
  case True
  with assms show ?thesis
    by (simp add: fl64_def Let_def)
next
  case False
  define u :: int where "u = 2 ^ nat (bitlen x - 53)"
  define q where "q = x div u"
  define q' where
    "q' = (if u < 2 * (x mod u) \<or> (2 * (x mod u) = u \<and> odd q) then q + 1 else q)"
  from False assms have pos: "0 < x"
    by (cases "x = 0") simp_all
  have u: "0 < u" by (simp add: u_def)
  have "u \<le> 2 ^ nat (bitlen x - 1)"
    unfolding u_def by (rule power_increasing) simp_all
  also have "\<dots> \<le> x"
    using bitlen_bounds [OF pos] by simp
  finally have "u \<le> x" .
  then have "0 < x div u"
    using u by (simp add: pos_imp_zdiv_pos_iff)
  then have q1: "1 \<le> q"
    unfolding q_def by simp
  have "q * u = x - x mod u"
    unfolding q_def by (simp add: minus_mod_eq_div_mult)
  moreover have "0 \<le> x mod u"
    using u by simp
  ultimately have qu: "q * u \<le> x" by linarith
  have q': "q \<le> q'" "q' \<le> q + 1"
    by (simp_all add: q'_def)
  have f: "fl64 x = q' * u"
    using False pos by (simp add: fl64_def Let_def u_def q_def q'_def)
  have "0 \<le> q' * u"
    using q1 q'(1) u by simp
  moreover have "q' * u \<le> 2 * x"
  proof -
    have "q' * u \<le> (q + 1) * u"
      using q'(2) u by (simp add: mult_right_mono)
    also have "\<dots> = q * u + u" by (simp add: algebra_simps)
    also have "\<dots> \<le> q * u + q * u"
      using q1 u by simp
    also have "\<dots> \<le> 2 * x"
      using qu by simp
    finally show ?thesis .
  qed
  ultimately show ?thesis by (simp add: f)
qed

lemma handler_seed_range:
  assumes "0 \<le> fst r" "fst r < 2 ^ snd r"
  shows "0 \<le> floor64 (times64 r 1000000000)" "floor64 (times64 r 1000000000) < 2000000000"
proof -
  let ?p = "fst r * 1000000000"
  have p: "0 \<le> ?p" using assms(1) by simp
  from fl64_bounds [OF p] have b: "0 \<le> fl64 ?p" "fl64 ?p \<le> 2 * ?p"
    by simp_all
  let ?c = "2 ^ snd r :: int"
  have c: "0 < ?c" by simp
  show "0 \<le> floor64 (times64 r 1000000000)"
    using b(1) by (simp add: floor64_def times64_def pos_imp_zdiv_nonneg_iff)
  have "fl64 ?p div ?c * ?c = fl64 ?p - fl64 ?p mod ?c"
    by (simp add: minus_mod_eq_div_mult)
  moreover have "0 \<le> fl64 ?p mod ?c"
    using c by simp
  moreover have "fl64 ?p < 2000000000 * ?c"
    using b(2) assms(2) by simp
  ultimately have "fl64 ?p div ?c * ?c < 2000000000 * ?c"
    by linarith
  then have "fl64 ?p div ?c < 2000000000"
    by (rule mult_right_less_imp_less) simp
  then show "floor64 (times64 r 1000000000) < 2000000000"
    by (simp add: floor64_def times64_def)
qed

lemma seed_of_half: "floor64 (times64 (1, Suc 0) 1000000000) = 500000000"
  by (simp add: floor64_def times64_def fl64_exact)

text \<open>
  A value of \<open>Math.random()\<close> where the binary64 product rounds up to an integer that the
  exact product does not reach.
\<close>

lemma seed_of_rounded_product:
  "floor64 (times64 (2251799849714045, 52) 1000000000) = 500000008"
  "\<lfloor>(2251799849714045 / 2 ^ 52 :: real) * 1000000000\<rfloor> = 500000007"
proof -
  have "bitlen (2 ^ 80 + 1042874030099415825293824) = int (80 + 1)"
    by (rule bitlen_twopow_add_eq) simp_all
  then have b: "bitlen 2251799849714045000000000 = 81"
    by simp
  show "floor64 (times64 (2251799849714045, 52) 1000000000) = 500000008"
    by (simp add: floor64_def times64_def fl64_def Let_def b)
  show "\<lfloor>(2251799849714045 / 2 ^ 52 :: real) * 1000000000\<rfloor> = 500000007"
    by simp
qed

lemma handler_get_responds:
  assumes "req_method req = Some ''GET''" "0 \<le> fst random" "fst random < 2 ^ snd random"
  shows "\<exists>inst. buildInstanceFromSeed (floor64 (times64 random 1000000000)) = Some inst \<and>
           handler req random =
             Some \<lparr>status = 200,
                   body = Json (JObject
                     [(''meta'', JObject [(''titulo'', JString ''Contagem (plugged)'')]),
                      (''instance'', json_of_instance inst)])\<rparr>"
proof -
  let ?sd = "floor64 (times64 random 1000000000)"
  from handler_seed_range [OF assms(2,3)] have "- (2 ^ 31) \<le> ?sd" "?sd < 2 ^ 32"
    by simp_all
  from build_returns_bound [OF this] obtain inst where "buildInstanceFromSeed ?sd = Some inst"
    by blast
  with assms(1) show ?thesis
    by (simp add: handler_def)
qed

section \<open>The claims\<close>

text \<open>
  C1. For every integer seed \<open>s\<close>, the instance returned by \<open>buildInstanceFromSeed s\<close> has
  exactly one alternative with \<open>correct = true\<close>, and the value of that alternative is the
  instance's decimal: the values of the alternatives marked correct, in order, are the
  one-element list holding the decimal.
\<close>

theorem exactly_one_correct:
  assumes "buildInstanceFromSeed s = Some inst"
  shows "length (alternatives inst) = 4 \<and>
         map alt_value (filter alt_correct (alternatives inst)) = [decimal inst]"
proof -
  from build_shape [OF assms] obtain w1 w2 w3 v0 v1 v2 v3 where
    d: "distinct [decimal inst, w1, w2, w3]"
    and s: "set [v0, v1, v2, v3] = set [decimal inst, w1, w2, w3]"
    and v: "distinct [v0, v1, v2, v3]"
    and alts: "alternatives inst =
       [\<lparr>alt_id = ''opt0'', alt_value = v0, alt_label = ''A'', alt_correct = (v0 = decimal inst)\<rparr>,
        \<lparr>alt_id = ''opt1'', alt_value = v1, alt_label = ''B'', alt_correct = (v1 = decimal inst)\<rparr>,
        \<lparr>alt_id = ''opt2'', alt_value = v2, alt_label = ''C'', alt_correct = (v2 = decimal inst)\<rparr>,
        \<lparr>alt_id = ''opt3'', alt_value = v3, alt_label = ''D'', alt_correct = (v3 = decimal inst)\<rparr>]"
    by blast
  from s have "decimal inst \<in> {v0, v1, v2, v3}" by auto
  with v show ?thesis
    unfolding alts by auto
qed

theorem exactly_one_correct_witness:
  "buildInstanceFromSeed 12345 \<noteq> None \<and>
   length (alternatives (the (buildInstanceFromSeed 12345))) = 4 \<and>
   map alt_value (filter alt_correct (alternatives (the (buildInstanceFromSeed 12345)))) = [9]"
proof -
  note h = build_12345
  from exactly_one_correct [OF h] show ?thesis
    by (simp add: h)
qed

text \<open>
  C2. For every integer seed \<open>s\<close>, two calls of \<open>buildInstanceFromSeed s\<close> with the same
  \<open>s\<close> produce identical results. The calls run in a store (section \<open>Calls in a
  store\<close>). Calls with the seed \<open>s\<close> started in any two stores \<open>h\<close> and \<open>h'\<close> either
  both return, with the same instance, or both do not return. In particular, if a call
  started in \<open>h\<close> returns the instance \<open>inst1\<close> and leaves the store \<open>h1\<close>, the call with
  the same seed made next, in \<open>h1\<close>, returns too, with the same bits, the same decimal
  and the same alternatives in the same order (the same instance).
\<close>

theorem same_seed_same_instance:
  "map_option fst (buildInstanceFromSeed_st s h) = map_option fst (buildInstanceFromSeed_st s h') \<and>
   (buildInstanceFromSeed_st s h = Some (inst1, h1) \<longrightarrow>
      (\<exists>inst2 h2. buildInstanceFromSeed_st s h1 = Some (inst2, h2) \<and>
         bits inst2 = bits inst1 \<and> decimal inst2 = decimal inst1 \<and>
         alternatives inst2 = alternatives inst1 \<and> inst2 = inst1))"
proof (intro conjI impI)
  show "map_option fst (buildInstanceFromSeed_st s h) = map_option fst (buildInstanceFromSeed_st s h')"
    by (simp only: build_st_result)
next
  assume "buildInstanceFromSeed_st s h = Some (inst1, h1)"
  then have "map_option fst (buildInstanceFromSeed_st s h) = Some inst1"
    by simp
  then have "buildInstanceFromSeed s = Some inst1"
    by (simp only: build_st_result)
  then have "map_option fst (buildInstanceFromSeed_st s h1) = Some inst1"
    by (simp only: build_st_result)
  then show "\<exists>inst2 h2. buildInstanceFromSeed_st s h1 = Some (inst2, h2) \<and>
         bits inst2 = bits inst1 \<and> decimal inst2 = decimal inst1 \<and>
         alternatives inst2 = alternatives inst1 \<and> inst2 = inst1"
    by auto
qed

theorem same_seed_same_instance_witness:
  "buildInstanceFromSeed_st 12345 [42] =
     Some (\<lparr>cards = [8, 4, 2, 1], bits = [1, 0, 0, 1], decimal = 9,
       alternatives =
         [\<lparr>alt_id = ''opt0'', alt_value = 7, alt_label = ''A'', alt_correct = False\<rparr>,
          \<lparr>alt_id = ''opt1'', alt_value = 9, alt_label = ''B'', alt_correct = True\<rparr>,
          \<lparr>alt_id = ''opt2'', alt_value = 5, alt_label = ''C'', alt_correct = False\<rparr>,
          \<lparr>alt_id = ''opt3'', alt_value = 11, alt_label = ''D'', alt_correct = False\<rparr>],
       seed = 12345\<rparr>, [42, 20147236288]) \<and>
   map_option (bits \<circ> fst) (buildInstanceFromSeed_st 12345 [42, 20147236288]) = Some [1, 0, 0, 1] \<and>
   map_option (decimal \<circ> fst) (buildInstanceFromSeed_st 12345 [42, 20147236288]) = Some 9 \<and>
   map_option (map alt_value \<circ> alternatives \<circ> fst) (buildInstanceFromSeed_st 12345 [42, 20147236288])
     = Some [7, 9, 5, 11]"
proof -
  let ?I = "\<lparr>cards = [8, 4, 2, 1], bits = [1, 0, 0, 1], decimal = 9,
       alternatives =
         [\<lparr>alt_id = ''opt0'', alt_value = 7, alt_label = ''A'', alt_correct = False\<rparr>,
          \<lparr>alt_id = ''opt1'', alt_value = 9, alt_label = ''B'', alt_correct = True\<rparr>,
          \<lparr>alt_id = ''opt2'', alt_value = 5, alt_label = ''C'', alt_correct = False\<rparr>,
          \<lparr>alt_id = ''opt3'', alt_value = 11, alt_label = ''D'', alt_correct = False\<rparr>],
       seed = 12345\<rparr>"
  have h: "buildInstanceFromSeed_st 12345 [42] = Some (?I, [42, 20147236288])"
    by (simp add: build_st_12345)
  from same_seed_same_instance [of 12345 "[42]" "[]" ?I "[42, 20147236288]"] h
  have "\<exists>inst2 h2. buildInstanceFromSeed_st 12345 [42, 20147236288] = Some (inst2, h2) \<and>
         bits inst2 = bits ?I \<and> decimal inst2 = decimal ?I \<and>
         alternatives inst2 = alternatives ?I \<and> inst2 = ?I"
    by blast
  then obtain h2 where "buildInstanceFromSeed_st 12345 [42, 20147236288] = Some (?I, h2)"
    by blast
  with h show ?thesis
    by simp
qed

text \<open>
  C3. For every integer seed \<open>s\<close>, the decimal of the returned instance is the dot product
  of its bits and its cards, and the cards are \<open>[8, 4, 2, 1]\<close>.
\<close>

theorem decimal_dot_product:
  assumes "buildInstanceFromSeed s = Some inst"
  shows "cards inst = [8, 4, 2, 1] \<and> length (bits inst) = 4 \<and>
         decimal inst = sum_list (map2 (*) (bits inst) (cards inst))"
proof -
  from build_shape [OF assms] obtain b1 b2 b3 b4 where
    "cards inst = [8, 4, 2, 1]" "bits inst = [b1, b2, b3, b4]"
    "decimal inst = b1 * 8 + b2 * 4 + b3 * 2 + b4 * 1"
    by blast
  then show ?thesis by simp
qed

theorem decimal_dot_product_witness:
  "buildInstanceFromSeed 12345 \<noteq> None \<and>
   cards (the (buildInstanceFromSeed 12345)) = [8, 4, 2, 1] \<and>
   bits (the (buildInstanceFromSeed 12345)) = [1, 0, 0, 1] \<and>
   decimal (the (buildInstanceFromSeed 12345)) = sum_list (map2 (*) [1, 0, 0, 1] [8, 4, 2, 1])"
proof -
  note h = build_12345
  from decimal_dot_product [OF h] show ?thesis
    by (simp add: h)
qed

text \<open>
  C4. For every integer seed \<open>s\<close>, the four alternative values of the returned instance
  are pairwise distinct; the three alternatives not marked correct (the distractors)
  have values that differ from each other and from the decimal.
\<close>

theorem values_distinct:
  assumes "buildInstanceFromSeed s = Some inst"
  shows "length (alternatives inst) = 4 \<and>
         distinct (map alt_value (alternatives inst)) \<and>
         length (filter (\<lambda>alt. \<not> alt_correct alt) (alternatives inst)) = 3 \<and>
         decimal inst \<notin> set (map alt_value (filter (\<lambda>alt. \<not> alt_correct alt) (alternatives inst)))"
proof -
  from build_shape [OF assms] obtain w1 w2 w3 v0 v1 v2 v3 where
    d: "distinct [decimal inst, w1, w2, w3]"
    and s: "set [v0, v1, v2, v3] = set [decimal inst, w1, w2, w3]"
    and v: "distinct [v0, v1, v2, v3]"
    and alts: "alternatives inst =
       [\<lparr>alt_id = ''opt0'', alt_value = v0, alt_label = ''A'', alt_correct = (v0 = decimal inst)\<rparr>,
        \<lparr>alt_id = ''opt1'', alt_value = v1, alt_label = ''B'', alt_correct = (v1 = decimal inst)\<rparr>,
        \<lparr>alt_id = ''opt2'', alt_value = v2, alt_label = ''C'', alt_correct = (v2 = decimal inst)\<rparr>,
        \<lparr>alt_id = ''opt3'', alt_value = v3, alt_label = ''D'', alt_correct = (v3 = decimal inst)\<rparr>]"
    by blast
  from s have "decimal inst \<in> {v0, v1, v2, v3}" by auto
  with v show ?thesis
    unfolding alts by auto
qed

theorem values_distinct_witness:
  "buildInstanceFromSeed 12345 \<noteq> None \<and>
   map alt_value (alternatives (the (buildInstanceFromSeed 12345))) = [7, 9, 5, 11] \<and>
   distinct (map alt_value (alternatives (the (buildInstanceFromSeed 12345)))) \<and>
   map alt_value (filter (\<lambda>alt. \<not> alt_correct alt) (alternatives (the (buildInstanceFromSeed 12345))))
     = [7, 5, 11]"
proof -
  note h = build_12345
  from values_distinct [OF h] show ?thesis
    by (simp add: h)
qed

text \<open>
  C5. For every integer seed \<open>s\<close>, the decimal of the returned instance lies in the closed
  range from 0 to 15, and so does the value of each of its four alternatives.
\<close>

theorem values_in_range:
  assumes "buildInstanceFromSeed s = Some inst"
  shows "0 \<le> decimal inst \<and> decimal inst \<le> 15 \<and> length (alternatives inst) = 4 \<and>
         list_all (\<lambda>alt. 0 \<le> alt_value alt \<and> alt_value alt \<le> 15) (alternatives inst)"
proof -
  from build_shape [OF assms] obtain b1 b2 b3 b4 w1 w2 w3 v0 v1 v2 v3 where
    b: "b1 \<in> {0, 1}" "b2 \<in> {0, 1}" "b3 \<in> {0, 1}" "b4 \<in> {0, 1}"
    and dec: "decimal inst = b1 * 8 + b2 * 4 + b3 * 2 + b4 * 1"
    and w: "\<forall>w\<in>{w1, w2, w3}. 0 \<le> w \<and> w \<le> 15"
    and s: "set [v0, v1, v2, v3] = set [decimal inst, w1, w2, w3]"
    and alts: "alternatives inst =
       [\<lparr>alt_id = ''opt0'', alt_value = v0, alt_label = ''A'', alt_correct = (v0 = decimal inst)\<rparr>,
        \<lparr>alt_id = ''opt1'', alt_value = v1, alt_label = ''B'', alt_correct = (v1 = decimal inst)\<rparr>,
        \<lparr>alt_id = ''opt2'', alt_value = v2, alt_label = ''C'', alt_correct = (v2 = decimal inst)\<rparr>,
        \<lparr>alt_id = ''opt3'', alt_value = v3, alt_label = ''D'', alt_correct = (v3 = decimal inst)\<rparr>]"
    by blast
  from b dec have d: "0 \<le> decimal inst" "decimal inst \<le> 15" by auto
  with w have "\<forall>x\<in>set [decimal inst, w1, w2, w3]. 0 \<le> x \<and> x \<le> 15" by simp
  with s have "\<forall>x\<in>set [v0, v1, v2, v3]. 0 \<le> x \<and> x \<le> 15" by simp
  with d show ?thesis
    unfolding alts by simp
qed

theorem values_in_range_witness:
  "buildInstanceFromSeed 12345 \<noteq> None \<and>
   decimal (the (buildInstanceFromSeed 12345)) = 9 \<and>
   list_all (\<lambda>alt. 0 \<le> alt_value alt \<and> alt_value alt \<le> 15)
     (alternatives (the (buildInstanceFromSeed 12345)))"
proof -
  note h = build_12345
  from values_in_range [OF h] show ?thesis
    by (simp add: h)
qed

text \<open>
  C6. The claim: the JSON payload the handler sends contains no \<open>correct\<close> field in its
  alternatives. The handler's own comment says so, but the handler serialises the
  instance as \<open>buildInstanceFromSeed\<close> returns it. For the request \<open>GET\<close> with
  \<open>Math.random()\<close> returning \<open>0.5\<close> (seed 500000000), every alternative of the payload
  has a member \<open>correct\<close>, and the second one carries \<open>true\<close>.
\<close>

theorem handler_sends_correct:
  "map (member ''correct'')
     (payload_alternatives (handler \<lparr>req_method = Some ''GET'', query = []\<rparr> (1, 1))) =
   [Some (JBool False), Some (JBool True), Some (JBool False), Some (JBool False)]"
  by (simp add: handler_def seed_of_half build_500000000 payload_alternatives_def
        payload_instance_def json_of_instance_def json_of_alternative_def)

text \<open>
  C7. The claim: the handler takes an optional seed from the request and generates the
  instance from it. The file's header documents the query parameter \<open>seed\<close>, but the
  handler never reads the query: for \<open>GET ?seed=123\<close> with \<open>Math.random()\<close> returning
  \<open>0.5\<close>, the payload is the instance of the seed 500000000, and the response is the one
  the same request without a query gets.
\<close>

theorem handler_ignores_seed:
  "payload_seed (handler \<lparr>req_method = Some ''GET'', query = [(''seed'', ''123'')]\<rparr> (1, 1)) =
     Some (JNumber 500000000) \<and>
   handler \<lparr>req_method = Some ''GET'', query = [(''seed'', ''123'')]\<rparr> (1, 1) =
     handler \<lparr>req_method = Some ''GET'', query = []\<rparr> (1, 1)"
  by (simp add: handler_def seed_of_half build_500000000 payload_seed_def payload_instance_def
        json_of_instance_def)

text \<open>
  C8. The claim, for every integer seed: \<open>buildInstanceFromSeed\<close> returns. It fails at the
  seed \<open>2^84\<close>, an integer that a \<open>number\<close> holds exactly: there the update
  \<open>a += 0x6d2b79f5\<close> rounds back to \<open>2^84\<close>, every draw is 0, the decimal is 0, each
  candidate is \<open>max(0, 0 - 4) = 0\<close>, and the retry loop never ends.
\<close>

theorem build_diverges_at_2_84: "buildInstanceFromSeed 19342813113834066795298816 = None"
  by (rule build_stuck)

text \<open>
  C8, amended. For every integer seed \<open>s\<close> that fits in 32 bits, signed or unsigned
  (\<open>-2^31 \<le> s < 2^32\<close>; the handler's seeds are between 0 and \<open>10^9\<close>),
  \<open>buildInstanceFromSeed s\<close> returns an instance: the retry loop, started after the four
  draws of the bits, returns three pairwise distinct wrong values that differ from the
  decimal, after at most 4900063 draws (the accumulator it leaves is at most
  \<open>s + (4 + 4900063) * 0x6d2b79f5\<close>).
\<close>

theorem build_returns_32bit:
  assumes "- (2 ^ 31) \<le> s" "s < 2 ^ 32"
  shows "\<exists>inst ws a2. buildInstanceFromSeed s = Some inst \<and>
           wrong_loop (decimal inst) [] (s + 4 * 1831565813) = Some (ws, a2) \<and>
           length ws = 3 \<and> distinct ws \<and> decimal inst \<notin> set ws \<and>
           a2 \<le> s + 4900067 * 1831565813"
proof -
  from build_returns_bound [OF assms] obtain inst ws a2 where
    b: "buildInstanceFromSeed s = Some inst"
    and wl: "wrong_loop (decimal inst) [] (s + 4 * 1831565813) = Some (ws, a2)"
    and a2: "a2 \<le> s + 4900067 * 1831565813"
    by blast
  from wrong_loop_Some [OF wl] have "length ws = 3" "distinct ws" "decimal inst \<notin> set ws"
    by simp_all
  with b wl a2 show ?thesis by blast
qed

theorem build_returns_32bit_witness:
  "- (2 ^ 31) \<le> (12345 :: int) \<and> (12345 :: int) < 2 ^ 32 \<and>
   (\<exists>inst ws a2. buildInstanceFromSeed 12345 = Some inst \<and>
      wrong_loop (decimal inst) [] (12345 + 4 * 1831565813) = Some (ws, a2) \<and>
      length ws = 3 \<and> distinct ws \<and> decimal inst \<notin> set ws \<and>
      a2 \<le> 12345 + 4900067 * 1831565813)"
proof -
  have h: "- (2 ^ 31) \<le> (12345 :: int)" "(12345 :: int) < 2 ^ 32"
    by simp_all
  from build_returns_32bit [OF h] h show ?thesis
    by blast
qed

text \<open>
  C9. For every integer seed \<open>s\<close>, the list that is shuffled is the decimal followed by
  the three wrong values in the order the retry loop collected them; the values of the
  alternatives are that list after the Fisher-Yates shuffle as the specification words it
  (\<open>spec_shuffle\<close>: for \<open>i\<close> from 3 down to 1, one draw, \<open>j = floor(draw * (i + 1))\<close>, swap
  of the positions \<open>i\<close> and \<open>j\<close>), started in the generator state the retry loop left; and
  the labels of the alternatives are A, B, C, D in this order.
\<close>

theorem candidates_and_shuffle:
  assumes "buildInstanceFromSeed s = Some inst"
  shows "\<exists>w1 w2 w3 a1 a2.
           draw_bits [8, 4, 2, 1] (mulberry32 s) = (bits inst, a1) \<and>
           wrong_loop (decimal inst) [] a1 = Some ([w1, w2, w3], a2) \<and>
           map alt_value (alternatives inst) = spec_shuffle [decimal inst, w1, w2, w3] a2 \<and>
           map alt_label (alternatives inst) = [''A'', ''B'', ''C'', ''D'']"
proof -
  from build_shape [OF assms] obtain b1 b2 b3 b4 w1 w2 w3 a1 a2 v0 v1 v2 v3 where
    "bits inst = [b1, b2, b3, b4]"
    "draw_bits [8, 4, 2, 1] s = ([b1, b2, b3, b4], a1)"
    "wrong_loop (decimal inst) [] a1 = Some ([w1, w2, w3], a2)"
    "fst (shuffle_from 3 [decimal inst, w1, w2, w3] a2) = [v0, v1, v2, v3]"
    and alts: "alternatives inst =
       [\<lparr>alt_id = ''opt0'', alt_value = v0, alt_label = ''A'', alt_correct = (v0 = decimal inst)\<rparr>,
        \<lparr>alt_id = ''opt1'', alt_value = v1, alt_label = ''B'', alt_correct = (v1 = decimal inst)\<rparr>,
        \<lparr>alt_id = ''opt2'', alt_value = v2, alt_label = ''C'', alt_correct = (v2 = decimal inst)\<rparr>,
        \<lparr>alt_id = ''opt3'', alt_value = v3, alt_label = ''D'', alt_correct = (v3 = decimal inst)\<rparr>]"
    by blast
  then show ?thesis
    unfolding alts by (simp add: mulberry32_def shuffle_from_spec)
qed

theorem candidates_and_shuffle_witness:
  "buildInstanceFromSeed 12345 \<noteq> None \<and>
   wrong_loop 9 [] 7326275597 = Some ([7, 5, 11], 14652538849) \<and>
   spec_shuffle [9, 7, 5, 11] 14652538849 = [7, 9, 5, 11] \<and>
   map alt_label (alternatives (the (buildInstanceFromSeed 12345))) = [''A'', ''B'', ''C'', ''D'']"
proof -
  note h = build_12345
  from candidates_and_shuffle [OF h] obtain w1 w2 w3 a1 a2 where
    "draw_bits [8, 4, 2, 1] (mulberry32 12345) = (bits (the (buildInstanceFromSeed 12345)), a1)"
    "wrong_loop 9 [] a1 = Some ([w1, w2, w3], a2)"
    "spec_shuffle [9, w1, w2, w3] a2 = [7, 9, 5, 11]"
    "map alt_label (alternatives (the (buildInstanceFromSeed 12345))) = [''A'', ''B'', ''C'', ''D'']"
    by (auto simp: h)
  then show ?thesis
    by (simp add: h mulberry32_def draw_bits_12345 wrong_loop_12345 del: draw_bits.simps)
qed

text \<open>
  C10. For every request whose method is not \<open>GET\<close>, the handler responds with the status
  405 and the text \<open>Method Not Allowed\<close>, whatever \<open>Math.random()\<close> would return: no
  instance is generated and none is sent.
\<close>

theorem non_get_405:
  assumes "req_method req \<noteq> Some ''GET''"
  shows "handler req random = Some \<lparr>status = 405, body = Text ''Method Not Allowed''\<rparr>"
  using assms by (simp add: handler_def)

theorem non_get_405_witness:
  "req_method \<lparr>req_method = Some ''POST'', query = []\<rparr> \<noteq> Some ''GET'' \<and>
   handler \<lparr>req_method = Some ''POST'', query = []\<rparr> (1, 1) =
     Some \<lparr>status = 405, body = Text ''Method Not Allowed''\<rparr>"
proof -
  have h: "req_method \<lparr>req_method = Some ''POST'', query = []\<rparr> \<noteq> Some ''GET''"
    by simp
  from non_get_405 [OF h, of "(1, 1)"] h show ?thesis
    by blast
qed

end
